theory Spec2Isabelle
  imports Main
begin

section \<open>JavaScript values as the handlers see them\<close>

text \<open>
  Everything that crosses the wire is JSON. A JavaScript string is held as the bytes of
  its UTF-8 encoding (so a string with an unpaired surrogate has no representation here),
  a number as the text \<open>String(n)\<close> gives for it (\<open>0\<close> and \<open>NaN\<close> are the falsy
  ones), an object as the list of its own properties in enumeration order (keys distinct).
  The JavaScript value \<open>undefined\<close> is \<open>None\<close> of \<open>json option\<close>: it
  only ever arises from reading a property that is not there.
\<close>

datatype json =
    JNull
  | JBool bool
  | JNum string
  | JStr string
  | JArr "json list"
  | JObj "(string \<times> json) list"

type_synonym jsval = "json option"

text \<open>
  A thrown value: \<open>error.message\<close> and, for an axios error that carries a response,
  \<open>error.response.data\<close>. \<open>response_data e = None\<close> says \<open>error.response\<close> is
  undefined.
\<close>

datatype js_error = Thrown (message: string) (response_data: "json option")

definition TypeError :: "string \<Rightarrow> js_error" where
  "TypeError m = Thrown m None"

text \<open>Truthiness, as \<open>!x\<close>, \<open>x || y\<close> and \<open>x ? a : b\<close> test it.\<close>

fun truthy :: "jsval \<Rightarrow> bool" where
  "truthy None = False"
| "truthy (Some JNull) = False"
| "truthy (Some (JBool b)) = b"
| "truthy (Some (JNum s)) = (s \<noteq> ''0'' \<and> s \<noteq> ''NaN'')"
| "truthy (Some (JStr s)) = (s \<noteq> [])"
| "truthy (Some (JArr xs)) = True"
| "truthy (Some (JObj kv)) = True"

text \<open>\<open>a || b\<close>\<close>

definition js_or :: "jsval \<Rightarrow> jsval \<Rightarrow> jsval" where
  "js_or a b = (if truthy a then a else b)"

text \<open>
  \<open>ToString\<close>, which a template literal applies to each \<open>${...}\<close>. An array joins
  its elements with commas (\<open>null\<close> elements give the empty string). A plain object
  gives \<open>[object Object]\<close> through \<open>Object.prototype.toString\<close>, unless it has an
  own property \<open>toString\<close>: a JSON value is never callable, so no method is left that
  returns a primitive and \<open>ToPrimitive\<close> throws.
\<close>

fun to_string :: "json \<Rightarrow> js_error + string"
  and join_elems :: "json list \<Rightarrow> js_error + string"
where
  "to_string JNull = Inr ''null''"
| "to_string (JBool b) = Inr (if b then ''true'' else ''false'')"
| "to_string (JNum s) = Inr s"
| "to_string (JStr s) = Inr s"
| "to_string (JArr xs) = join_elems xs"
| "to_string (JObj kv) =
     (case map_of kv ''toString'' of
        Some m \<Rightarrow> Inl (TypeError ''Cannot convert object to primitive value'')
      | None \<Rightarrow> Inr ''[object Object]'')"
| "join_elems [] = Inr ''''"
| "join_elems (x # xs) =
     (case (if x = JNull then Inr '''' else to_string x) of
        Inl e \<Rightarrow> Inl e
      | Inr s \<Rightarrow>
          (if xs = [] then Inr s
           else (case join_elems xs of
                   Inl e \<Rightarrow> Inl e
                 | Inr t \<Rightarrow> Inr (s @ '','' @ t))))"

definition template :: "jsval \<Rightarrow> js_error + string" where
  "template v = (case v of None \<Rightarrow> Inr ''undefined'' | Some j \<Rightarrow> to_string j)"

text \<open>
  Reading a property \<open>v.k\<close> for the keys the handlers read (\<open>access_token\<close>,
  \<open>content\<close>, \<open>attachment\<close>, \<open>url\<close>, \<open>data\<close>, the fields of the request body):
  none of them is inherited from a prototype, so only an object can have one; reading
  from \<open>undefined\<close> or \<open>null\<close> throws.
\<close>

definition js_get :: "jsval \<Rightarrow> string \<Rightarrow> js_error + jsval" where
  "js_get v k =
     (case v of
        None \<Rightarrow> Inl (TypeError (''Cannot read properties of undefined (reading '' @ [CHR 0x27] @ k @ [CHR 0x27] @ '')''))
      | Some JNull \<Rightarrow> Inl (TypeError (''Cannot read properties of null (reading '' @ [CHR 0x27] @ k @ [CHR 0x27] @ '')''))
      | Some (JObj kv) \<Rightarrow> Inr (map_of kv k)
      | Some _ \<Rightarrow> Inr None)"

section \<open>Text codecs of the platform\<close>

subsection \<open>Decimal numerals\<close>

fun show_nat :: "nat \<Rightarrow> string" where
  "show_nat n =
     (if n < 10 then [char_of (48 + n)]
      else show_nat (n div 10) @ [char_of (48 + n mod 10)])"

declare show_nat.simps [simp del]

subsection \<open>\<open>URLSearchParams\<close>\<close>

text \<open>
  \<open>toString()\<close> is the \<open>application/x-www-form-urlencoded\<close> serialiser: of each
  byte of a name or value, ASCII letters and digits and \<open>* - . _\<close> stay, a space
  becomes \<open>+\<close>, every other byte becomes \<open>%XX\<close>; pairs are \<open>name=value\<close> joined
  by \<open>&\<close>, in the order of the list.
\<close>

definition hex_digit :: "nat \<Rightarrow> char" where
  "hex_digit n = ''0123456789ABCDEF'' ! n"

definition form_byte :: "char \<Rightarrow> string" where
  "form_byte c =
     (let n = (of_char c :: nat) in
      if n = 0x20 then ''+''
      else if n = 0x2A \<or> n = 0x2D \<or> n = 0x2E \<or> n = 0x5F
              \<or> (0x30 \<le> n \<and> n \<le> 0x39)
              \<or> (0x41 \<le> n \<and> n \<le> 0x5A)
              \<or> (0x61 \<le> n \<and> n \<le> 0x7A) then [c]
      else [CHR ''%'', hex_digit (n div 16), hex_digit (n mod 16)])"

definition form_encode :: "string \<Rightarrow> string" where
  "form_encode s = concat (map form_byte s)"

fun join_with :: "string \<Rightarrow> string list \<Rightarrow> string" where
  "join_with sep [] = []"
| "join_with sep [x] = x"
| "join_with sep (x # y # zs) = x @ sep @ join_with sep (y # zs)"

definition params_toString :: "(string \<times> string) list \<Rightarrow> string" where
  "params_toString ps =
     join_with ''&'' (map (\<lambda>(k, v). form_encode k @ ''='' @ form_encode v) ps)"

text \<open>
  \<open>new URLSearchParams(obj)\<close>: one pair per own property of the object, in enumeration
  order, the value converted by \<open>ToString\<close> (which may throw).
\<close>

fun params_of_object :: "(string \<times> json) list \<Rightarrow> js_error + (string \<times> string) list" where
  "params_of_object [] = Inr []"
| "params_of_object ((k, v) # kvs) =
     (case to_string v of
        Inl e \<Rightarrow> Inl e
      | Inr s \<Rightarrow>
          (case params_of_object kvs of
             Inl e \<Rightarrow> Inl e
           | Inr ps \<Rightarrow> Inr ((k, s) # ps)))"

subsection \<open>Base64\<close>

text \<open>
  \<open>buf.toString('base64')\<close>: the standard alphabet (\<open>A-Z\<close>, \<open>a-z\<close>,
  \<open>0-9\<close>, \<open>+\<close>, \<open>/\<close>), three bytes to four characters, padded with \<open>=\<close>.
\<close>

definition b64_char :: "nat \<Rightarrow> char" where
  "b64_char n =
     (if n < 26 then char_of (0x41 + n)
      else if n < 52 then char_of (0x61 + (n - 26))
      else if n < 62 then char_of (0x30 + (n - 52))
      else if n = 62 then CHR ''+''
      else CHR ''/'')"

fun base64_encode :: "string \<Rightarrow> string" where
  "base64_encode [] = []"
| "base64_encode [a] =
     (let x = (of_char a :: nat) in
      [b64_char (x div 4), b64_char ((x mod 4) * 16), CHR ''='', CHR ''=''])"
| "base64_encode [a, b] =
     (let x = (of_char a :: nat); y = (of_char b :: nat) in
      [b64_char (x div 4), b64_char ((x mod 4) * 16 + y div 16),
       b64_char ((y mod 16) * 4), CHR ''=''])"
| "base64_encode (a # b # c # rest) =
     (let x = (of_char a :: nat); y = (of_char b :: nat); z = (of_char c :: nat) in
      [b64_char (x div 4), b64_char ((x mod 4) * 16 + y div 16),
       b64_char ((y mod 16) * 4 + z div 64), b64_char (z mod 64)] @ base64_encode rest)"

subsection \<open>UTF-8\<close>

text \<open>
  \<open>buf.toString('utf-8')\<close> decodes bytes to a string; since a string is held here as
  its UTF-8 bytes, decoding copies every well-formed sequence and puts U+FFFD (the bytes
  \<open>EF BF BD\<close>) for every maximal ill-formed part. \<open>utf8_lead\<close> gives, for a lead
  byte, the number of continuation bytes and the range allowed for the first of them.
\<close>

definition utf8_lead :: "nat \<Rightarrow> (nat \<times> nat \<times> nat) option" where
  "utf8_lead b =
     (if 0xC2 \<le> b \<and> b \<le> 0xDF then Some (1, 0x80, 0xBF)
      else if b = 0xE0 then Some (2, 0xA0, 0xBF)
      else if b = 0xED then Some (2, 0x80, 0x9F)
      else if 0xE1 \<le> b \<and> b \<le> 0xEF then Some (2, 0x80, 0xBF)
      else if b = 0xF0 then Some (3, 0x90, 0xBF)
      else if 0xF1 \<le> b \<and> b \<le> 0xF3 then Some (3, 0x80, 0xBF)
      else if b = 0xF4 then Some (3, 0x80, 0x8F)
      else None)"

fun utf8_trail :: "nat \<Rightarrow> nat \<Rightarrow> nat \<Rightarrow> string \<Rightarrow> nat" where
  "utf8_trail 0 lo hi bs = 0"
| "utf8_trail (Suc n) lo hi [] = 0"
| "utf8_trail (Suc n) lo hi (b # bs) =
     (if lo \<le> (of_char b :: nat) \<and> (of_char b :: nat) \<le> hi
      then Suc (utf8_trail n 0x80 0xBF bs) else 0)"

definition replacement_char :: string where
  "replacement_char = [char_of (0xEF :: nat), char_of (0xBF :: nat), char_of (0xBD :: nat)]"

function utf8_toString :: "string \<Rightarrow> string" where
  "utf8_toString [] = []"
| "utf8_toString (b # bs) =
     (if (of_char b :: nat) < 0x80 then b # utf8_toString bs
      else (case utf8_lead (of_char b) of
              None \<Rightarrow> replacement_char @ utf8_toString bs
            | Some (n, lo, hi) \<Rightarrow>
                (let k = utf8_trail n lo hi bs in
                 if k = n then (b # take n bs) @ utf8_toString (drop n bs)
                 else replacement_char @ utf8_toString (drop k bs))))"
  by pat_completeness auto
termination
  by (relation "measure length") auto

text \<open>Well-formed UTF-8, as the table of RFC 3629 lists the byte sequences.\<close>

definition utf8_tail :: "char \<Rightarrow> bool" where
  "utf8_tail c = (0x80 \<le> (of_char c :: nat) \<and> (of_char c :: nat) \<le> 0xBF)"

fun utf8_wf :: "string \<Rightarrow> bool" where
  "utf8_wf [] = True"
| "utf8_wf (b # bs) =
     (let n = (of_char b :: nat) in
      if n < 0x80 then utf8_wf bs
      else if 0xC2 \<le> n \<and> n \<le> 0xDF then
        (case bs of c # r \<Rightarrow> utf8_tail c \<and> utf8_wf r | _ \<Rightarrow> False)
      else if 0xE0 \<le> n \<and> n \<le> 0xEF then
        (case bs of
           c # d # r \<Rightarrow>
             (if n = 0xE0 then 0xA0 \<le> (of_char c :: nat) \<and> (of_char c :: nat) \<le> 0xBF
              else if n = 0xED then 0x80 \<le> (of_char c :: nat) \<and> (of_char c :: nat) \<le> 0x9F
              else utf8_tail c)
             \<and> utf8_tail d \<and> utf8_wf r
         | _ \<Rightarrow> False)
      else if 0xF0 \<le> n \<and> n \<le> 0xF4 then
        (case bs of
           c # d # e # r \<Rightarrow>
             (if n = 0xF0 then 0x90 \<le> (of_char c :: nat) \<and> (of_char c :: nat) \<le> 0xBF
              else if n = 0xF4 then 0x80 \<le> (of_char c :: nat) \<and> (of_char c :: nat) \<le> 0x8F
              else utf8_tail c)
             \<and> utf8_tail d \<and> utf8_tail e \<and> utf8_wf r
         | _ \<Rightarrow> False)
      else False)"

subsection \<open>Decoding base64\<close>

text \<open>
  \<open>Buffer.from(s, 'base64')\<close> reads the string unit by unit, each UTF-16 unit cut to its
  low byte: an ASCII character is itself, any other character contributes the low byte
  of each of its units (two units, a surrogate pair, beyond U+FFFF). An ill-formed part of
  the bytes stands for U+FFFD.
\<close>

definition utf8_code_point :: "char \<Rightarrow> string \<Rightarrow> nat" where
  "utf8_code_point b cs =
     (case cs of
        [c] \<Rightarrow> (of_char b mod 32) * 64 + of_char c mod 64
      | [c, d] \<Rightarrow> (of_char b mod 16) * 4096 + (of_char c mod 64) * 64 + of_char d mod 64
      | [c, d, e] \<Rightarrow>
          (of_char b mod 8) * 262144 + (of_char c mod 64) * 4096
            + (of_char d mod 64) * 64 + of_char e mod 64
      | _ \<Rightarrow> 0xFFFD)"

definition unit_low_bytes :: "nat \<Rightarrow> string" where
  "unit_low_bytes cp =
     (if cp < 0x10000 then [char_of cp]
      else [char_of (0xD800 + (cp - 0x10000) div 1024), char_of (0xDC00 + (cp - 0x10000) mod 1024)])"

function utf16_low_bytes :: "string \<Rightarrow> string" where
  "utf16_low_bytes [] = []"
| "utf16_low_bytes (b # bs) =
     (if (of_char b :: nat) < 0x80 then b # utf16_low_bytes bs
      else (case utf8_lead (of_char b) of
              None \<Rightarrow> unit_low_bytes 0xFFFD @ utf16_low_bytes bs
            | Some (n, lo, hi) \<Rightarrow>
                (let k = utf8_trail n lo hi bs in
                 if k = n
                 then unit_low_bytes (utf8_code_point b (take n bs)) @ utf16_low_bytes (drop n bs)
                 else unit_low_bytes 0xFFFD @ utf16_low_bytes (drop k bs))))"
  by pat_completeness auto
termination
  by (relation "measure length") auto

text \<open>
  The decoder is lenient: of these bytes it reads the characters of the standard and of
  the URL-safe alphabet, skips every other, and stops at the first \<open>=\<close>. Every two,
  three or four sextets give one, two or three bytes (each cut to 8 bits); a single
  left-over sextet gives nothing.
\<close>

definition unbase64 :: "char \<Rightarrow> nat option" where
  "unbase64 c =
     (let n = (of_char c :: nat) in
      if 0x41 \<le> n \<and> n \<le> 0x5A then Some (n - 0x41)
      else if 0x61 \<le> n \<and> n \<le> 0x7A then Some (n - 0x61 + 26)
      else if 0x30 \<le> n \<and> n \<le> 0x39 then Some (n - 0x30 + 52)
      else if n = 0x2B \<or> n = 0x2D then Some 62
      else if n = 0x2F \<or> n = 0x5F then Some 63
      else None)"

fun sextets_bytes :: "nat list \<Rightarrow> string" where
  "sextets_bytes (a # b # c # d # rest) =
     [char_of (a * 4 + b div 16), char_of (b * 16 + c div 4), char_of (c * 64 + d)]
       @ sextets_bytes rest"
| "sextets_bytes [a, b, c] = [char_of (a * 4 + b div 16), char_of (b * 16 + c div 4)]"
| "sextets_bytes [a, b] = [char_of (a * 4 + b div 16)]"
| "sextets_bytes [a] = []"
| "sextets_bytes [] = []"

definition sextets :: "string \<Rightarrow> nat list" where
  "sextets s = List.map_filter unbase64 (takeWhile (\<lambda>c. c \<noteq> CHR ''='') s)"

definition base64_decode :: "string \<Rightarrow> string" where
  "base64_decode s = sextets_bytes (sextets (utf16_low_bytes s))"

section \<open>The world outside the process\<close>

text \<open>
  What a handler cannot compute is taken from a \<open>world\<close>: the replies of the network,
  the clock, the random source, and the behaviour of the libraries where the repository's
  code does not decide it (the signature \<open>jsonwebtoken\<close> computes, \<open>Buffer.from\<close> on
  an argument that is not a string, \<open>ToNumber\<close> of a string).
\<close>

datatype http_method = GET | POST

record http_request =
  req_method :: http_method
  url :: json
  req_headers :: "(string \<times> string) list"
  req_body :: "json option"
  responseType :: "string option"

text \<open>
  A reply is a status with headers (names in lower case, as axios delivers them) and the
  parsed body, or no reply at all (a network error, with its message). The network may
  answer depending on all calls made before.
\<close>

datatype reply = Reply nat "(string \<times> string) list" json | NoReply string

type_synonym trace = "http_request list"

record jwt_payload =
  iss :: string
  sub :: string
  aud :: string
  exp :: int
  jti :: string

record world =
  network :: "trace \<Rightarrow> http_request \<Rightarrow> reply"
  date_now :: int
  date_iso :: string
  math_random :: string
  jwt_sign :: "jwt_payload \<Rightarrow> string \<Rightarrow> string \<Rightarrow> js_error + string"
  buffer_from_other :: "json \<Rightarrow> js_error + string"
  string_gt_zero :: "string \<Rightarrow> bool"

text \<open>
  \<open>date_now\<close> is \<open>Date.now()\<close> in milliseconds, \<open>date_iso\<close> is
  \<open>new Date().toISOString()\<close>, \<open>math_random\<close> is \<open>Math.random().toString(36)\<close>.
\<close>

subsection \<open>Computations that call the network and may throw\<close>

type_synonym 'a io = "trace \<Rightarrow> (js_error + 'a) \<times> trace"

definition io_return :: "'a \<Rightarrow> 'a io" where
  "io_return x tr = (Inr x, tr)"

definition io_of :: "js_error + 'a \<Rightarrow> 'a io" where
  "io_of r tr = (r, tr)"

definition io_bind :: "'a io \<Rightarrow> ('a \<Rightarrow> 'b io) \<Rightarrow> 'b io" where
  "io_bind m f tr =
     (case m tr of
        (Inl e, tr') \<Rightarrow> (Inl e, tr')
      | (Inr x, tr') \<Rightarrow> f x tr')"

text \<open>\<open>try { ... } catch (error) { ... }\<close> around a whole handler.\<close>

definition io_try :: "'a io \<Rightarrow> (js_error \<Rightarrow> 'a) \<Rightarrow> trace \<Rightarrow> 'a \<times> trace" where
  "io_try m h tr =
     (case m tr of
        (Inl e, tr') \<Rightarrow> (h e, tr')
      | (Inr x, tr') \<Rightarrow> (x, tr'))"

subsection \<open>axios\<close>

record axios_response =
  resp_status :: nat
  resp_headers :: "(string \<times> string) list"
  resp_data :: json

text \<open>
  A call handed to axios is recorded in the trace. axios resolves on a status from 200 to
  299 and rejects otherwise, with the response attached; a network error rejects with no
  response.
\<close>

definition axios :: "world \<Rightarrow> http_request \<Rightarrow> axios_response io" where
  "axios w rq tr =
     ((case network w tr rq of
         Reply st hs d \<Rightarrow>
           (if 200 \<le> st \<and> st < 300
            then Inr \<lparr>resp_status = st, resp_headers = hs, resp_data = d\<rparr>
            else Inl (Thrown (''Request failed with status code '' @ show_nat st) (Some d)))
       | NoReply m \<Rightarrow> Inl (Thrown m None)),
      tr @ [rq])"

section \<open>Credential and endpoints\<close>

text \<open>
  The constants each module loads at start. \<open>server.js\<close> and \<open>files.js\<close> read
  \<open>ISSUER\<close> and \<open>EPIC_CLIENT_ID\<close> from the environment; \<open>file-uploads.js\<close> reads
  \<open>CLIENT_ID\<close> for both.
\<close>

record credential =
  ISSUER :: string
  CLIENT_ID :: string
  PRIVATE_KEY :: string

definition EPIC_TOKEN_URL :: string where
  "EPIC_TOKEN_URL = ''https://fhir.epic.com/interconnect-fhir-oauth/oauth2/token''"

definition EPIC_FHIR_URL :: string where
  "EPIC_FHIR_URL = ''https://fhir.epic.com/interconnect-fhir-oauth/api/FHIR/R4''"

definition EPIC_STU3_FHIR_URL :: string where
  "EPIC_STU3_FHIR_URL = ''https://fhir.epic.com/interconnect-fhir-oauth/api/FHIR/STU3''"

section \<open>Assertion builder and token exchange\<close>

text \<open>\<open>generateJWT\<close>, the same in the three modules (\<open>server.js\<close> also logs).\<close>

definition jwt_claims :: "credential \<Rightarrow> int \<Rightarrow> string \<Rightarrow> jwt_payload" where
  "jwt_claims c now rnd =
     \<lparr>iss = ISSUER c,
      sub = CLIENT_ID c,
      aud = EPIC_TOKEN_URL,
      exp = now div 1000 + 300,
      jti = drop 2 rnd\<rparr>"

definition generateJWT :: "world \<Rightarrow> credential \<Rightarrow> js_error + string" where
  "generateJWT w c =
     jwt_sign w (jwt_claims c (date_now w) (math_random w)) (PRIVATE_KEY c) ''RS256''"

definition token_request :: "string \<Rightarrow> http_request" where
  "token_request jwtToken =
     \<lparr>req_method = POST,
      url = JStr EPIC_TOKEN_URL,
      req_headers = [(''Content-Type'', ''application/x-www-form-urlencoded'')],
      req_body = Some (JStr (params_toString
        [(''grant_type'', ''client_credentials''),
         (''client_assertion_type'', ''urn:ietf:params:oauth:client-assertion-type:jwt-bearer''),
         (''client_assertion'', jwtToken)])),
      responseType = None\<rparr>"

text \<open>
  \<open>getAccessToken\<close>: in \<open>server.js\<close> and \<open>files.js\<close> the call is wrapped in a
  \<open>try\<close> that logs and rethrows, in \<open>file-uploads.js\<close> it is not; the result is the
  same. What is returned is \<open>response.data.access_token\<close>, whatever it is.
\<close>

definition getAccessToken :: "world \<Rightarrow> credential \<Rightarrow> jsval io" where
  "getAccessToken w c =
     io_bind (io_of (generateJWT w c)) (\<lambda>jwtToken.
     io_bind (axios w (token_request jwtToken)) (\<lambda>response.
     io_of (js_get (Some (resp_data response)) ''access_token'')))"

section \<open>Inbound requests and responses\<close>

datatype route =
    GetPatient
  | PostPatientMatch
  | GetPatientSearch
  | GetAppointments
  | GetScheduledSurgery
  | PostAppointmentFind
  | PostObservation
  | PostUploadUrl
  | GetDocument
  | GetBulkExport
  | GetBulkStatus
  | GetBulkDownload

text \<open>
  \<open>query\<close> is \<open>req.query\<close> (an object, as Express parsed it), \<open>param\<close> the one
  path parameter (\<open>:id\<close>, \<open>:documentId\<close>), \<open>body\<close> is \<open>req.body\<close>.
\<close>

record inbound =
  route :: route
  query :: "(string \<times> json) list"
  param :: string
  body :: jsval

datatype content = Json "(string \<times> json) list" | Piped json

record response =
  status :: nat
  out_headers :: "(string \<times> string) list"
  content :: content

text \<open>
  \<open>res.status(st).json(obj)\<close>: \<open>JSON.stringify\<close> leaves out the properties whose
  value is \<open>undefined\<close>.
\<close>

definition res_json :: "nat \<Rightarrow> (string \<times> jsval) list \<Rightarrow> response" where
  "res_json st props =
     \<lparr>status = st,
      out_headers = [],
      content = Json (List.map_filter (\<lambda>(k, v). map_option (Pair k) v) props)\<rparr>"

text \<open>\<open>error.response ? error.response.data : error.message\<close>\<close>

definition data_else_message :: "js_error \<Rightarrow> json" where
  "data_else_message e =
     (case response_data e of Some d \<Rightarrow> d | None \<Rightarrow> JStr (message e))"

text \<open>\<open>error.response?.data || error.message\<close>\<close>

definition data_or_message :: "js_error \<Rightarrow> json" where
  "data_or_message e =
     (if truthy (response_data e) then the (response_data e) else JStr (message e))"

section \<open>server.js\<close>

definition callEpicAPI :: "world \<Rightarrow> string \<Rightarrow> jsval \<Rightarrow> json io" where
  "callEpicAPI w endpoint accessToken =
     io_bind (io_of (template accessToken)) (\<lambda>tok.
     io_bind (axios w
        \<lparr>req_method = GET,
         url = JStr (EPIC_FHIR_URL @ ''/'' @ endpoint),
         req_headers = [(''Authorization'', ''Bearer '' @ tok), (''Accept'', ''application/json'')],
         req_body = None,
         responseType = None\<rparr>) (\<lambda>response.
     io_return (resp_data response)))"

definition callEpicAPIPatientMatch :: "world \<Rightarrow> jsval \<Rightarrow> jsval \<Rightarrow> json io" where
  "callEpicAPIPatientMatch w matchParameters accessToken =
     io_bind (io_of (template accessToken)) (\<lambda>tok.
     io_bind (axios w
        \<lparr>req_method = POST,
         url = JStr (EPIC_FHIR_URL @ ''/Patient/$match''),
         req_headers = [(''Authorization'', ''Bearer '' @ tok),
                        (''Content-Type'', ''application/json''),
                        (''Accept'', ''application/json'')],
         req_body = matchParameters,
         responseType = None\<rparr>) (\<lambda>response.
     io_return (resp_data response)))"

definition callEpicAPIAppointmentFind :: "world \<Rightarrow> jsval \<Rightarrow> jsval \<Rightarrow> json io" where
  "callEpicAPIAppointmentFind w findParameters accessToken =
     io_bind (io_of (template accessToken)) (\<lambda>tok.
     io_bind (axios w
        \<lparr>req_method = POST,
         url = JStr (EPIC_STU3_FHIR_URL @ ''/Appointment/$find''),
         req_headers = [(''Authorization'', ''Bearer '' @ tok),
                        (''Content-Type'', ''application/json''),
                        (''Accept'', ''application/json'')],
         req_body = findParameters,
         responseType = None\<rparr>) (\<lambda>response.
     io_return (resp_data response)))"

definition ok_envelope :: "nat \<Rightarrow> string \<Rightarrow> json \<Rightarrow> response" where
  "ok_envelope st msg d =
     res_json st [(''success'', Some (JBool True)), (''message'', Some (JStr msg)), (''data'', Some d)]"

definition error_envelope :: "string \<Rightarrow> json \<Rightarrow> response" where
  "error_envelope msg err =
     res_json 500 [(''success'', Some (JBool False)), (''message'', Some (JStr msg)), (''error'', Some err)]"

definition patient :: "world \<Rightarrow> credential \<Rightarrow> inbound \<Rightarrow> trace \<Rightarrow> response \<times> trace" where
  "patient w c rq =
     io_try
       (io_bind (getAccessToken w c) (\<lambda>accessToken.
        io_bind (callEpicAPI w (''Patient/'' @ ''erXuFYUfucBZaryVksYEcMg3'') accessToken) (\<lambda>patientData.
        io_return (ok_envelope 200 ''Data fetched successfully'' patientData))))
       (\<lambda>error. error_envelope ''Error fetching data'' (JStr (message error)))"

definition patient_match :: "world \<Rightarrow> credential \<Rightarrow> inbound \<Rightarrow> trace \<Rightarrow> response \<times> trace" where
  "patient_match w c rq =
     io_try
       (io_bind (getAccessToken w c) (\<lambda>accessToken.
        io_bind (callEpicAPIPatientMatch w (body rq) accessToken) (\<lambda>matchResults.
        io_return (ok_envelope 200 ''Patient match results retrieved successfully'' matchResults))))
       (\<lambda>error. error_envelope ''Error matching patient'' (data_else_message error))"

definition patient_search :: "world \<Rightarrow> credential \<Rightarrow> inbound \<Rightarrow> trace \<Rightarrow> response \<times> trace" where
  "patient_search w c rq =
     io_try
       (io_bind (getAccessToken w c) (\<lambda>accessToken.
        io_bind (io_of (params_of_object (query rq))) (\<lambda>params.
        io_bind (callEpicAPI w (''Patient?'' @ params_toString params) accessToken) (\<lambda>searchResults.
        io_return (ok_envelope 200 ''Patient search results retrieved successfully'' searchResults)))))
       (\<lambda>error. error_envelope ''Error searching patient'' (data_else_message error))"

definition appointments :: "world \<Rightarrow> credential \<Rightarrow> inbound \<Rightarrow> trace \<Rightarrow> response \<times> trace" where
  "appointments w c rq =
     io_try
       (io_bind (getAccessToken w c) (\<lambda>accessToken.
        io_bind (io_of (params_of_object (query rq))) (\<lambda>params.
        io_bind (callEpicAPI w (''Appointment?'' @ params_toString params) accessToken) (\<lambda>appointmentResults.
        io_return (ok_envelope 200 ''Appointment search results retrieved successfully'' appointmentResults)))))
       (\<lambda>error. error_envelope ''Error retrieving appointments'' (data_else_message error))"

definition scheduled_surgery :: "world \<Rightarrow> credential \<Rightarrow> inbound \<Rightarrow> trace \<Rightarrow> response \<times> trace" where
  "scheduled_surgery w c rq =
     io_try
       (io_bind (getAccessToken w c) (\<lambda>accessToken.
        io_bind (callEpicAPI w (''Appointment/'' @ param rq) accessToken) (\<lambda>surgeryData.
        io_return (ok_envelope 200 ''Scheduled surgery appointment retrieved successfully'' surgeryData))))
       (\<lambda>error. error_envelope ''Error retrieving scheduled surgery appointment'' (data_else_message error))"

definition appointment_find :: "world \<Rightarrow> credential \<Rightarrow> inbound \<Rightarrow> trace \<Rightarrow> response \<times> trace" where
  "appointment_find w c rq =
     io_try
       (io_bind (getAccessToken w c) (\<lambda>accessToken.
        io_bind (callEpicAPIAppointmentFind w (body rq) accessToken) (\<lambda>findResults.
        io_return (ok_envelope 200 ''Appointment $find results retrieved successfully'' findResults))))
       (\<lambda>error. error_envelope ''Error finding appointment slots'' (data_else_message error))"

definition observation :: "world \<Rightarrow> credential \<Rightarrow> inbound \<Rightarrow> trace \<Rightarrow> response \<times> trace" where
  "observation w c rq =
     io_try
       (io_bind (getAccessToken w c) (\<lambda>accessToken.
        io_bind (io_of (template accessToken)) (\<lambda>tok.
        io_bind (axios w
           \<lparr>req_method = POST,
            url = JStr (EPIC_FHIR_URL @ ''/Observation''),
            req_headers = [(''Authorization'', ''Bearer '' @ tok),
                           (''Content-Type'', ''application/json''),
                           (''Accept'', ''application/json'')],
            req_body = body rq,
            responseType = None\<rparr>) (\<lambda>response.
        io_return (ok_envelope 201 ''Observation created successfully'' (resp_data response))))))
       (\<lambda>error. error_envelope ''Error creating observation'' (data_else_message error))"

section \<open>files.js\<close>

text \<open>The call \<open>/bulk-export\<close> makes: the URL and the three headers.\<close>

definition export_request :: "string \<Rightarrow> string \<Rightarrow> string \<Rightarrow> http_request" where
  "export_request groupId resourceTypes tok =
     \<lparr>req_method = GET,
      url = JStr (EPIC_FHIR_URL @ ''/Group/'' @ groupId @ ''/$export?_type='' @ resourceTypes),
      req_headers = [(''Authorization'', ''Bearer '' @ tok),
                     (''Accept'', ''application/fhir+json''),
                     (''Prefer'', ''respond-async'')],
      req_body = None,
      responseType = None\<rparr>"

definition bulk_export :: "world \<Rightarrow> credential \<Rightarrow> inbound \<Rightarrow> trace \<Rightarrow> response \<times> trace" where
  "bulk_export w c rq =
     io_try
       (io_bind (getAccessToken w c) (\<lambda>accessToken.
        let groupId = js_or (map_of (query rq) ''groupId'') (Some (JStr ''default-group-id''));
            resourceTypes = js_or (map_of (query rq) ''types'') (Some (JStr ''Patient,Observation,Encounter''))
        in
        io_bind (io_of (template groupId)) (\<lambda>g.
        io_bind (io_of (template resourceTypes)) (\<lambda>t.
        io_bind (io_of (template accessToken)) (\<lambda>tok.
        io_bind (axios w (export_request g t tok)) (\<lambda>response.
        io_return (res_json 200
           [(''success'', Some (JBool True)),
            (''message'', Some (JStr ''Bulk data export initiated'')),
            (''statusUrl'', map_option JStr (map_of (resp_headers response) ''content-location''))])))))))
       (\<lambda>error. error_envelope ''Error initiating bulk export'' (JStr (message error)))"

definition bulk_status :: "world \<Rightarrow> credential \<Rightarrow> inbound \<Rightarrow> trace \<Rightarrow> response \<times> trace" where
  "bulk_status w c rq =
     io_try
       (io_bind (getAccessToken w c) (\<lambda>accessToken.
        let statusUrl = map_of (query rq) ''statusUrl'' in
        if \<not> truthy statusUrl
        then io_return (res_json 400
               [(''success'', Some (JBool False)), (''message'', Some (JStr ''Missing statusUrl parameter''))])
        else
        io_bind (io_of (template accessToken)) (\<lambda>tok.
        io_bind (axios w
           \<lparr>req_method = GET,
            url = the statusUrl,
            req_headers = [(''Authorization'', ''Bearer '' @ tok), (''Accept'', ''application/json'')],
            req_body = None,
            responseType = None\<rparr>) (\<lambda>response.
        io_return (ok_envelope 200 ''Export status retrieved'' (resp_data response))))))
       (\<lambda>error. error_envelope ''Error checking export status'' (JStr (message error)))"

definition bulk_download :: "world \<Rightarrow> credential \<Rightarrow> inbound \<Rightarrow> trace \<Rightarrow> response \<times> trace" where
  "bulk_download w c rq =
     io_try
       (io_bind (getAccessToken w c) (\<lambda>accessToken.
        let fileUrl = map_of (query rq) ''fileUrl'' in
        if \<not> truthy fileUrl
        then io_return (res_json 400
               [(''success'', Some (JBool False)), (''message'', Some (JStr ''Missing fileUrl parameter''))])
        else
        io_bind (io_of (template accessToken)) (\<lambda>tok.
        io_bind (axios w
           \<lparr>req_method = GET,
            url = the fileUrl,
            req_headers = [(''Authorization'', ''Bearer '' @ tok)],
            req_body = None,
            responseType = Some ''stream''\<rparr>) (\<lambda>response.
        io_return
           \<lparr>status = 200,
            out_headers = [(''Content-Disposition'', ''attachment; filename='' @ [CHR 0x22] @ ''bulk_data.ndjson'' @ [CHR 0x22])],
            content = Piped (resp_data response)\<rparr>))))
       (\<lambda>error. error_envelope ''Error downloading bulk data'' (JStr (message error)))"

section \<open>file-uploads.js\<close>

text \<open>
  The middleware \<open>authenticate\<close> runs before the handler of both routes: it exchanges
  the token, and calls \<open>next\<close> (the handler, with \<open>req.accessToken\<close> set) only when
  the exchange did not throw.
\<close>

definition authenticate ::
  "world \<Rightarrow> credential \<Rightarrow> (jsval \<Rightarrow> trace \<Rightarrow> response \<times> trace) \<Rightarrow> trace \<Rightarrow> response \<times> trace" where
  "authenticate w c next tr =
     (case getAccessToken w c tr of
        (Inr accessToken, tr') \<Rightarrow> next accessToken tr'
      | (Inl error, tr') \<Rightarrow>
          (res_json 500
             [(''success'', Some (JBool False)),
              (''message'', Some (JStr ''Authentication failed'')),
              (''error'', Some (JStr (message error)))], tr'))"

text \<open>\<open>const { documentUrl, patientId, encounterId } = req.body\<close>\<close>

definition destructure_body :: "jsval \<Rightarrow> js_error + (jsval \<times> jsval \<times> jsval)" where
  "destructure_body b =
     (case b of
        None \<Rightarrow> Inl (TypeError (''Cannot destructure property '' @ [CHR 0x27] @ ''documentUrl''
                   @ [CHR 0x27] @ '' of '' @ [CHR 0x27] @ ''req.body'' @ [CHR 0x27] @ '' as it is undefined.''))
      | Some JNull \<Rightarrow> Inl (TypeError (''Cannot destructure property '' @ [CHR 0x27] @ ''documentUrl''
                   @ [CHR 0x27] @ '' of '' @ [CHR 0x27] @ ''req.body'' @ [CHR 0x27] @ '' as it is null.''))
      | Some (JObj kv) \<Rightarrow> Inr (map_of kv ''documentUrl'', map_of kv ''patientId'', map_of kv ''encounterId'')
      | Some _ \<Rightarrow> Inr (None, None, None))"

text \<open>\<open>Buffer.from(v)\<close>: the UTF-8 bytes of a string; anything else is the library's.\<close>

definition buffer_from :: "world \<Rightarrow> json \<Rightarrow> js_error + string" where
  "buffer_from w v = (case v of JStr s \<Rightarrow> Inr s | _ \<Rightarrow> buffer_from_other w v)"

text \<open>\<open>Buffer.from(v, 'base64')\<close>\<close>

definition buffer_from_base64 :: "world \<Rightarrow> json \<Rightarrow> js_error + string" where
  "buffer_from_base64 w v = (case v of JStr s \<Rightarrow> Inr (base64_decode s) | _ \<Rightarrow> buffer_from_other w v)"

text \<open>\<open>s.split('/')\<close>: always at least one piece.\<close>

fun split_on :: "char \<Rightarrow> string \<Rightarrow> string list" where
  "split_on sep [] = [[]]"
| "split_on sep (x # xs) =
     (if x = sep then [] # split_on sep xs
      else (case split_on sep xs of
              p # ps \<Rightarrow> (x # p) # ps
            | [] \<Rightarrow> [[x]]))"

definition upload_url :: "world \<Rightarrow> inbound \<Rightarrow> jsval \<Rightarrow> trace \<Rightarrow> response \<times> trace" where
  "upload_url w rq accessToken =
     io_try
       (io_bind (io_of (destructure_body (body rq))) (\<lambda>(documentUrl, patientId, encounterId).
        if \<not> truthy documentUrl \<or> \<not> truthy patientId
        then io_return (res_json 400 [(''error'', Some (JStr ''documentUrl and patientId are required''))])
        else
        io_bind (io_of (template patientId)) (\<lambda>pid.
        io_bind (io_of (buffer_from w (the documentUrl))) (\<lambda>buf.
        io_bind (io_of (if truthy encounterId then template encounterId else Inr [])) (\<lambda>eid.
        let docReference = JObj
              ([(''resourceType'', JStr ''DocumentReference''),
                (''status'', JStr ''current''),
                (''type'', JObj [(''coding'', JArr [JObj
                    [(''system'', JStr ''http://loinc.org''),
                     (''code'', JStr ''11506-3''),
                     (''display'', JStr ''Scanned Document'')]])]),
                (''subject'', JObj [(''reference'', JStr (''Patient/'' @ pid))]),
                (''date'', JStr (date_iso w)),
                (''content'', JArr [JObj [(''attachment'', JObj
                    [(''contentType'', JStr ''text/plain''),
                     (''data'', JStr (base64_encode buf))])]])]
               @ (if truthy encounterId
                  then [(''context'', JObj [(''encounter'', JArr [JObj
                          [(''reference'', JStr (''Encounter/'' @ eid))]])])]
                  else []))
        in
        io_bind (io_of (template accessToken)) (\<lambda>tok.
        io_bind (axios w
           \<lparr>req_method = POST,
            url = JStr (EPIC_FHIR_URL @ ''/DocumentReference''),
            req_headers = [(''Content-Type'', ''application/json''), (''Authorization'', ''Bearer '' @ tok)],
            req_body = Some docReference,
            responseType = None\<rparr>) (\<lambda>docResponse.
        let locationHeader = map_of (resp_headers docResponse) ''location'';
            documentId = (if truthy (map_option JStr locationHeader)
                          then Some (JStr (last (split_on CHR ''/'' (the locationHeader))))
                          else Some JNull)
        in
        if \<not> truthy documentId
        then io_return (res_json 500
               [(''success'', Some (JBool False)), (''message'', Some (JStr ''Epic did not return a Document ID''))])
        else io_return (res_json 200 [(''success'', Some (JBool True)), (''documentId'', documentId)]))))))))
       (\<lambda>error. error_envelope ''Error uploading document URL'' (data_or_message error))"

text \<open>
  \<open>attachments.length > 0\<close>, where \<open>attachments\<close> is any truthy JSON value or the
  empty array: the length of an array or string, the own property \<open>length\<close> of an
  object (converted by \<open>ToNumber\<close>), \<open>undefined\<close> otherwise.
\<close>

definition number_gt_zero :: "world \<Rightarrow> json \<Rightarrow> js_error + bool" where
  "number_gt_zero w v =
     (case v of
        JNull \<Rightarrow> Inr False
      | JBool b \<Rightarrow> Inr b
      | JNum s \<Rightarrow> Inr (s \<noteq> ''0'' \<and> s \<noteq> ''NaN'' \<and> take 1 s \<noteq> ''-'')
      | JStr s \<Rightarrow> Inr (string_gt_zero w s)
      | _ \<Rightarrow> (case to_string v of Inl e \<Rightarrow> Inl e | Inr s \<Rightarrow> Inr (string_gt_zero w s)))"

definition length_gt_zero :: "world \<Rightarrow> json \<Rightarrow> js_error + bool" where
  "length_gt_zero w v =
     (case v of
        JArr xs \<Rightarrow> Inr (xs \<noteq> [])
      | JStr s \<Rightarrow> Inr (s \<noteq> [])
      | JObj kv \<Rightarrow> (case map_of kv ''length'' of None \<Rightarrow> Inr False | Some l \<Rightarrow> number_gt_zero w l)
      | _ \<Rightarrow> Inr False)"

text \<open>
  \<open>attachments[0]\<close>. Of a string it is its first character, of which only this matters
  below: it is a string, so it has no property \<open>attachment\<close>.
\<close>

definition index0 :: "json \<Rightarrow> jsval" where
  "index0 v =
     (case v of
        JArr xs \<Rightarrow> (case xs of [] \<Rightarrow> None | x # _ \<Rightarrow> Some x)
      | JStr s \<Rightarrow> (if s = [] then None else Some (JStr (take 1 s)))
      | JObj kv \<Rightarrow> map_of kv ''0''
      | _ \<Rightarrow> None)"

definition document :: "world \<Rightarrow> inbound \<Rightarrow> jsval \<Rightarrow> trace \<Rightarrow> response \<times> trace" where
  "document w rq accessToken =
     io_try
       (let documentId = param rq in
        io_bind (io_of (template accessToken)) (\<lambda>tok.
        io_bind (axios w
           \<lparr>req_method = GET,
            url = JStr (EPIC_FHIR_URL @ ''/DocumentReference/'' @ documentId),
            req_headers = [(''Authorization'', ''Bearer '' @ tok)],
            req_body = None,
            responseType = None\<rparr>) (\<lambda>docResponse.
        io_bind (io_of (js_get (Some (resp_data docResponse)) ''content'')) (\<lambda>content.
        let attachments = the (js_or content (Some (JArr []))) in
        io_bind (io_of (length_gt_zero w attachments)) (\<lambda>nonempty.
        io_bind (io_of (if nonempty
                        then (case js_get (index0 attachments) ''attachment'' of
                                Inl e \<Rightarrow> Inl e
                              | Inr a \<Rightarrow> js_get a ''url'')
                        else Inr (Some JNull))) (\<lambda>binaryReference.
        if \<not> truthy binaryReference
        then io_return (res_json 404
               [(''success'', Some (JBool False)),
                (''message'', Some (JStr ''No Binary reference found in DocumentReference''))])
        else
        io_bind (io_of (template binaryReference)) (\<lambda>ref.
        io_bind (io_of (template accessToken)) (\<lambda>tok2.
        io_bind (axios w
           \<lparr>req_method = GET,
            url = JStr (EPIC_FHIR_URL @ ''/'' @ ref),
            req_headers = [(''Authorization'', ''Bearer '' @ tok2)],
            req_body = None,
            responseType = None\<rparr>) (\<lambda>binaryResponse.
        io_bind (io_of (if truthy (Some (resp_data binaryResponse))
                        then js_get (Some (resp_data binaryResponse)) ''data''
                        else Inr None)) (\<lambda>data.
        if \<not> truthy (Some (resp_data binaryResponse)) \<or> \<not> truthy data
        then io_return (res_json 500
               [(''success'', Some (JBool False)),
                (''message'', Some (JStr ''Binary resource does not contain data'')),
                (''epicResponse'', Some (resp_data binaryResponse))])
        else
        io_bind (io_of (buffer_from_base64 w (the data))) (\<lambda>buf.
        let documentUrl = utf8_toString buf in
        io_return (res_json 200
           [(''success'', Some (JBool True)), (''documentUrl'', Some (JStr documentUrl))]))))))))))))
       (\<lambda>error. error_envelope ''Error retrieving document'' (data_or_message error))"

section \<open>The three applications\<close>

definition serve :: "world \<Rightarrow> credential \<Rightarrow> inbound \<Rightarrow> trace \<Rightarrow> response \<times> trace" where
  "serve w c rq =
     (case route rq of
        GetPatient \<Rightarrow> patient w c rq
      | PostPatientMatch \<Rightarrow> patient_match w c rq
      | GetPatientSearch \<Rightarrow> patient_search w c rq
      | GetAppointments \<Rightarrow> appointments w c rq
      | GetScheduledSurgery \<Rightarrow> scheduled_surgery w c rq
      | PostAppointmentFind \<Rightarrow> appointment_find w c rq
      | PostObservation \<Rightarrow> observation w c rq
      | PostUploadUrl \<Rightarrow> authenticate w c (upload_url w rq)
      | GetDocument \<Rightarrow> authenticate w c (document w rq)
      | GetBulkExport \<Rightarrow> bulk_export w c rq
      | GetBulkStatus \<Rightarrow> bulk_status w c rq
      | GetBulkDownload \<Rightarrow> bulk_download w c rq)"

text \<open>One inbound request, from an empty trace: the response and the calls made.\<close>

definition handle :: "world \<Rightarrow> credential \<Rightarrow> inbound \<Rightarrow> response \<times> trace" where
  "handle w c rq = serve w c rq []"

section \<open>Reading a response\<close>

definition body_field :: "response \<Rightarrow> string \<Rightarrow> jsval" where
  "body_field r k = (case content r of Json kv \<Rightarrow> map_of kv k | Piped d \<Rightarrow> None)"

text \<open>
  The envelope in the words of the specification, against which the answers are read
  at the end: \<open>{success: boolean, message: string, data?}\<close> on success, and
  \<open>{success: false, message, error}\<close> with status 500, or 400 for a validation
  error, on failure. An answer below 400 is read as a success, any other as a failure.
\<close>

definition claimed_success_shape :: "response \<Rightarrow> bool" where
  "claimed_success_shape r =
     ((case body_field r ''success'' of Some (JBool b) \<Rightarrow> True | _ \<Rightarrow> False)
      \<and> (case body_field r ''message'' of Some (JStr m) \<Rightarrow> True | _ \<Rightarrow> False))"

definition claimed_failure_shape :: "response \<Rightarrow> bool" where
  "claimed_failure_shape r =
     ((status r = 500 \<or> status r = 400)
      \<and> body_field r ''success'' = Some (JBool False)
      \<and> body_field r ''message'' \<noteq> None
      \<and> body_field r ''error'' \<noteq> None)"

definition claimed_envelope :: "response \<Rightarrow> bool" where
  "claimed_envelope r = (if status r < 400 then claimed_success_shape r else claimed_failure_shape r)"

definition server_js_routes :: "route list" where
  "server_js_routes =
     [GetPatient, PostPatientMatch, GetPatientSearch, GetAppointments,
      GetScheduledSurgery, PostAppointmentFind, PostObservation]"

text \<open>The bytes the form serialiser leaves as they are.\<close>

definition form_unreserved :: "char \<Rightarrow> bool" where
  "form_unreserved c =
     (let n = (of_char c :: nat) in
      n = 0x2A \<or> n = 0x2D \<or> n = 0x2E \<or> n = 0x5F
      \<or> (0x30 \<le> n \<and> n \<le> 0x39)
      \<or> (0x41 \<le> n \<and> n \<le> 0x5A)
      \<or> (0x61 \<le> n \<and> n \<le> 0x7A))"

section \<open>A mocked upstream, for concrete runs\<close>

definition mock_sign :: "jwt_payload \<Rightarrow> string \<Rightarrow> string \<Rightarrow> js_error + string" where
  "mock_sign p k alg = Inr (''h.'' @ jti p @ ''.s'')"

definition mock_credential :: credential where
  "mock_credential = \<lparr>ISSUER = ''issuer-1'', CLIENT_ID = ''client-1'', PRIVATE_KEY = ''PEM''\<rparr>"

definition mock_world :: "(http_request \<Rightarrow> reply) \<Rightarrow> world" where
  "mock_world net =
     \<lparr>network = (\<lambda>tr rq. net rq),
      date_now = 1700000000123,
      date_iso = ''2023-11-14T22:13:20.123Z'',
      math_random = ''0.4fzyo82mvyr'',
      jwt_sign = mock_sign,
      buffer_from_other = (\<lambda>v. Inl (TypeError ''The first argument must be of type string'')),
      string_gt_zero = (\<lambda>s. False)\<rparr>"

text \<open>An authorization server that issues the token \<open>T\<close>, and a FHIR server behind it.\<close>

definition mock_epic :: "http_request \<Rightarrow> reply" where
  "mock_epic rq =
     (if url rq = JStr EPIC_TOKEN_URL
      then Reply 200 [] (JObj [(''access_token'', JStr ''T''), (''token_type'', JStr ''bearer'')])
      else if req_method rq = POST
      then Reply 201 [(''location'', EPIC_FHIR_URL @ ''/DocumentReference/123'')] (JStr [])
      else if url rq = JStr (EPIC_FHIR_URL @ ''/DocumentReference/123'')
      then Reply 200 [] (JObj
             [(''resourceType'', JStr ''DocumentReference''),
              (''content'', JArr [JObj [(''attachment'', JObj [(''url'', JStr ''Binary/abc'')])]])])
      else if url rq = JStr (EPIC_FHIR_URL @ ''/Binary/abc'')
      then Reply 200 [] (JObj [(''resourceType'', JStr ''Binary''), (''data'', JStr ''aHR0cHM6Ly94L2RvYw=='')])
      else if url rq = JStr (EPIC_FHIR_URL @ ''/DocumentReference/77'')
      then Reply 200 [] (JObj [(''resourceType'', JStr ''DocumentReference''), (''content'', JArr [JObj []])])
      else Reply 202 [(''content-location'', ''https://fhir.epic.com/status/1'')] (JObj []))"

text \<open>An authorization server that answers 401, and one whose 200 body has no token.\<close>

definition mock_denied :: "http_request \<Rightarrow> reply" where
  "mock_denied rq = Reply 401 [] (JObj [(''error'', JStr ''invalid_client'')])"

definition mock_tokenless :: "http_request \<Rightarrow> reply" where
  "mock_tokenless rq = Reply 200 [] (JObj [])"

text \<open>
  An upstream that issues the token \<open>T\<close> and answers everything else 200 with an empty
  object and no headers: no \<open>Location\<close>, no \<open>content\<close>.
\<close>

definition mock_bare :: "http_request \<Rightarrow> reply" where
  "mock_bare rq =
     (if url rq = JStr EPIC_TOKEN_URL
      then Reply 200 [] (JObj [(''access_token'', JStr ''T'')])
      else Reply 200 [] (JObj []))"

definition mock_inbound :: "route \<Rightarrow> inbound" where
  "mock_inbound r = \<lparr>route = r, query = [], param = ''123'', body = Some (JObj [])\<rparr>"

text \<open>The requests of the examples.\<close>

definition upload_example :: inbound where
  "upload_example = (mock_inbound PostUploadUrl)
     \<lparr>body := Some (JObj [(''documentUrl'', JStr ''https://x/doc''), (''patientId'', JStr ''P1'')])\<rparr>"

definition upload_empty_example :: inbound where
  "upload_empty_example = (mock_inbound PostUploadUrl)
     \<lparr>body := Some (JObj [(''documentUrl'', JStr []), (''patientId'', JStr ''P1'')])\<rparr>"

definition upload_partial_example :: inbound where
  "upload_partial_example = (mock_inbound PostUploadUrl)
     \<lparr>body := Some (JObj [(''documentUrl'', JStr ''https://x/doc'')])\<rparr>"

definition upload_bodiless_example :: inbound where
  "upload_bodiless_example = (mock_inbound PostUploadUrl)\<lparr>body := None\<rparr>"

definition export_example :: inbound where
  "export_example = (mock_inbound GetBulkExport)
     \<lparr>query := [(''groupId'', JStr ''G1''), (''types'', JStr ''Patient'')]\<rparr>"

definition search_example :: inbound where
  "search_example = (mock_inbound GetPatientSearch)
     \<lparr>query := [(''family'', JStr ''Lopez''), (''gender'', JStr ''Female'')]\<rparr>"

definition search_repeated_example :: inbound where
  "search_repeated_example = (mock_inbound GetPatientSearch)
     \<lparr>query := [(''family'', JArr [JStr ''Lopez'', JStr ''Smith''])]\<rparr>"

definition search_encoded_example :: inbound where
  "search_encoded_example = (mock_inbound GetPatientSearch)
     \<lparr>query := [(''name'', JStr ''O~Brien Jr'')]\<rparr>"

definition download_example :: inbound where
  "download_example = (mock_inbound GetBulkDownload)
     \<lparr>query := [(''fileUrl'', JStr ''https://fhir.epic.com/files/1.ndjson'')]\<rparr>"

definition broken_document_example :: inbound where
  "broken_document_example = (mock_inbound GetDocument)\<lparr>param := ''77''\<rparr>"

section \<open>The codecs are inverse to each other\<close>

lemma unbase64_b64_char: "n < 64 \<Longrightarrow> unbase64 (b64_char n) = Some n"
  by (auto simp add: unbase64_def b64_char_def Let_def)

lemma unbase64_pad: "unbase64 CHR ''='' = None"
  by (simp add: unbase64_def)

lemma b64_char_not_pad: "n < 64 \<Longrightarrow> b64_char n \<noteq> CHR ''=''"
  using unbase64_b64_char [of n] unbase64_pad by auto

lemma sextets_Cons: "n < 64 \<Longrightarrow> sextets (b64_char n # s) = n # sextets s"
  by (simp add: sextets_def b64_char_not_pad unbase64_b64_char map_filter_simps)

lemma sextets_pad: "sextets (CHR ''='' # s) = []"
  by (simp add: sextets_def map_filter_simps)

lemma sextets_Nil: "sextets [] = []"
  by (simp add: sextets_def map_filter_simps)

lemma char_of_byte: "n mod 256 = of_char c \<Longrightarrow> char_of (n :: nat) = c"
  by (metis char_of_char char_of_mod_256)

lemma sextet_bounds:
  fixes x y z :: nat
  assumes "x < 256" "y < 256" "z < 256"
  shows "x div 4 < 64" "x mod 4 * 16 < 64" "x mod 4 * 16 + y div 16 < 64"
    "y mod 16 * 4 < 64" "y mod 16 * 4 + z div 64 < 64" "z mod 64 < 64"
  using assms by auto

lemma byte_1: "(x div 4 * 4 + (x mod 4 * 16 + y div 16) div 16) mod 256 = x"
  if "x < 256" "y < 256" for x y :: nat
  using that by (simp add: div_add1_eq)

lemma byte_2: "((x mod 4 * 16 + y div 16) * 16 + (y mod 16 * 4 + z div 64) div 4) mod 256 = y"
  if "y < 256" "z < 256" for x y z :: nat
proof -
  have "(y mod 16 * 4 + z div 64) div 4 = y mod 16"
    using that by simp
  moreover have "(x mod 4 * 16 + y div 16) * 16 = x mod 4 * 256 + y div 16 * 16"
    by (simp add: algebra_simps)
  ultimately have "(x mod 4 * 16 + y div 16) * 16 + (y mod 16 * 4 + z div 64) div 4
      = x mod 4 * 256 + y"
    by simp
  then show ?thesis using that by simp
qed

lemma byte_3: "((y mod 16 * 4 + z div 64) * 64 + z mod 64) mod 256 = z"
  if "z < 256" for y z :: nat
proof -
  have "(y mod 16 * 4 + z div 64) * 64 + z mod 64 = y mod 16 * 256 + z"
    by (simp add: algebra_simps)
  then show ?thesis using that by simp
qed

lemma sextets_encode_1:
  "sextets (base64_encode [a]) = [of_char a div 4, of_char a mod 4 * 16]"
  using sextet_bounds [of "of_char a" 0 0]
  by (simp add: Let_def sextets_Cons sextets_pad)

lemma sextets_encode_2:
  "sextets (base64_encode [a, b]) =
     [of_char a div 4, of_char a mod 4 * 16 + of_char b div 16, of_char b mod 16 * 4]"
  using sextet_bounds [of "of_char a" "of_char b" 0]
  by (simp add: Let_def sextets_Cons sextets_pad)

lemma sextets_encode_3:
  "sextets (base64_encode (a # b # c # rest)) =
     [of_char a div 4, of_char a mod 4 * 16 + of_char b div 16,
      of_char b mod 16 * 4 + of_char c div 64, of_char c mod 64]
     @ sextets (base64_encode rest)"
  using sextet_bounds [of "of_char a" "of_char b" "of_char c"]
  by (simp add: Let_def sextets_Cons)

lemma utf16_low_bytes_ascii: "list_all (\<lambda>c. (of_char c :: nat) < 0x80) s \<Longrightarrow> utf16_low_bytes s = s"
  by (induction s) simp_all

lemma b64_char_ascii: "n < 64 \<Longrightarrow> (of_char (b64_char n) :: nat) < 0x80"
  by (auto simp add: b64_char_def)

lemma base64_encode_ascii: "list_all (\<lambda>c. (of_char c :: nat) < 0x80) (base64_encode s)"
proof (induction s rule: base64_encode.induct)
  case 1
  show ?case by simp
next
  case (2 a)
  show ?case
    using sextet_bounds [of "of_char a" 0 0] by (simp add: Let_def b64_char_ascii)
next
  case (3 a b)
  show ?case
    using sextet_bounds [of "of_char a" "of_char b" 0] by (simp add: Let_def b64_char_ascii)
next
  case (4 a b c rest)
  then show ?case
    using sextet_bounds [of "of_char a" "of_char b" "of_char c"] by (simp add: Let_def b64_char_ascii)
qed

lemma base64_roundtrip: "base64_decode (base64_encode s) = s"
  unfolding base64_decode_def utf16_low_bytes_ascii [OF base64_encode_ascii]
proof (induction s rule: base64_encode.induct)
  case 1
  show ?case by (simp add: sextets_Nil)
next
  case (2 a)
  show ?case
    using byte_1 [of "of_char a" 0]
    by (simp only: sextets_encode_1 sextets_bytes.simps) (simp add: char_of_byte)
next
  case (3 a b)
  show ?case
    using byte_1 [of "of_char a" "of_char b"] byte_2 [of "of_char b" 0 "of_char a"]
    by (simp only: sextets_encode_2 sextets_bytes.simps) (simp add: char_of_byte)
next
  case (4 a b c rest)
  show ?case
    using byte_1 [of "of_char a" "of_char b"] byte_2 [of "of_char b" "of_char c" "of_char a"]
      byte_3 [of "of_char c" "of_char b"] 4
    by (simp only: sextets_encode_3 sextets_bytes.simps append_Cons append_Nil)
      (simp add: char_of_byte)
qed

lemma base64_encode_nonempty: "s \<noteq> [] \<Longrightarrow> base64_encode s \<noteq> []"
  by (induction s rule: base64_encode.induct) (simp_all add: Let_def)

lemma trail_Suc:
  "utf8_trail (Suc n) lo hi (c # r) =
     (if lo \<le> (of_char c :: nat) \<and> (of_char c :: nat) \<le> hi
      then Suc (utf8_trail n 0x80 0xBF r) else 0)"
  by simp

lemma trail_tails_1:
  "lo \<le> (of_char c :: nat) \<Longrightarrow> (of_char c :: nat) \<le> hi \<Longrightarrow> utf8_trail 1 lo hi (c # r) = 1"
  using trail_Suc [of 0 lo hi c r] by simp

lemma trail_tails_2:
  "lo \<le> (of_char c :: nat) \<Longrightarrow> (of_char c :: nat) \<le> hi \<Longrightarrow> utf8_tail d
     \<Longrightarrow> utf8_trail 2 lo hi (c # d # r) = 2"
  using trail_Suc [of 1 lo hi c "d # r"] trail_tails_1 [of "0x80" d "0xBF" r]
  by (simp add: utf8_tail_def numeral_2_eq_2)

lemma trail_tails_3:
  "lo \<le> (of_char c :: nat) \<Longrightarrow> (of_char c :: nat) \<le> hi \<Longrightarrow> utf8_tail d \<Longrightarrow> utf8_tail e
     \<Longrightarrow> utf8_trail 3 lo hi (c # d # e # r) = 3"
  using trail_Suc [of 2 lo hi c "d # e # r"] trail_tails_2 [of "0x80" d "0xBF" e r]
  by (simp add: utf8_tail_def numeral_3_eq_3 numeral_2_eq_2)

lemma toString_seq:
  assumes "\<not> (of_char b :: nat) < 0x80" "utf8_lead (of_char b) = Some (n, lo, hi)"
    "utf8_trail n lo hi bs = n"
  shows "utf8_toString (b # bs) = (b # take n bs) @ utf8_toString (drop n bs)"
  using assms by simp

lemma utf8_wf_toString: "utf8_wf s \<Longrightarrow> utf8_toString s = s"
proof (induction s rule: utf8_wf.induct)
  case 1
  show ?case by simp
next
  case (2 b bs)
  let ?n = "of_char b :: nat"
  consider (ascii) "?n < 0x80" | (two) "0xC2 \<le> ?n" "?n \<le> 0xDF"
    | (three) "0xE0 \<le> ?n" "?n \<le> 0xEF" | (four) "0xF0 \<le> ?n" "?n \<le> 0xF4"
    using "2.prems" by (simp add: Let_def split: if_splits)
  then show ?case
  proof cases
    case ascii
    with 2 show ?thesis by (simp add: Let_def)
  next
    case two
    with "2.prems" obtain c r where bs: "bs = c # r" and c: "utf8_tail c" and r: "utf8_wf r"
      by (auto simp add: Let_def split: list.splits)
    have lead: "utf8_lead ?n = Some (1, 0x80, 0xBF)"
      using two by (simp add: utf8_lead_def)
    have "utf8_trail 1 0x80 0xBF bs = 1"
      using c bs by (simp add: trail_tails_1 utf8_tail_def)
    with lead two have "utf8_toString (b # bs) = (b # take 1 bs) @ utf8_toString (drop 1 bs)"
      by (intro toString_seq) auto
    moreover have "utf8_toString r = r"
      using "2.IH"(2) [OF refl _ _ bs] two r by simp
    ultimately show ?thesis using bs by simp
  next
    case three
    with "2.prems" obtain c d r where bs: "bs = c # d # r" and d: "utf8_tail d" and r: "utf8_wf r"
      and c: "if ?n = 0xE0 then 0xA0 \<le> (of_char c :: nat) \<and> (of_char c :: nat) \<le> 0xBF
              else if ?n = 0xED then 0x80 \<le> (of_char c :: nat) \<and> (of_char c :: nat) \<le> 0x9F
              else utf8_tail c"
      by (auto simp add: Let_def split: list.splits)
    obtain lo hi where lead: "utf8_lead ?n = Some (2, lo, hi)"
      and lohi: "lo \<le> (of_char c :: nat)" "(of_char c :: nat) \<le> hi"
      using three c by (auto simp add: utf8_lead_def utf8_tail_def split: if_splits)
    have "utf8_trail 2 lo hi bs = 2"
      using lohi d bs by (simp add: trail_tails_2)
    with lead three have "utf8_toString (b # bs) = (b # take 2 bs) @ utf8_toString (drop 2 bs)"
      by (intro toString_seq) auto
    moreover have "utf8_toString r = r"
      using "2.IH"(3) [OF refl _ _ _ bs] three r by simp
    ultimately show ?thesis using bs by simp
  next
    case four
    with "2.prems" obtain c d e r where bs: "bs = c # d # e # r" and d: "utf8_tail d"
      and e: "utf8_tail e" and r: "utf8_wf r"
      and c: "if ?n = 0xF0 then 0x90 \<le> (of_char c :: nat) \<and> (of_char c :: nat) \<le> 0xBF
              else if ?n = 0xF4 then 0x80 \<le> (of_char c :: nat) \<and> (of_char c :: nat) \<le> 0x8F
              else utf8_tail c"
      by (auto simp add: Let_def split: list.splits)
    obtain lo hi where lead: "utf8_lead ?n = Some (3, lo, hi)"
      and lohi: "lo \<le> (of_char c :: nat)" "(of_char c :: nat) \<le> hi"
      using four c by (auto simp add: utf8_lead_def utf8_tail_def split: if_splits)
    have "utf8_trail 3 lo hi bs = 3"
      using lohi d e bs by (simp add: trail_tails_3)
    with lead four have "utf8_toString (b # bs) = (b # take 3 bs) @ utf8_toString (drop 3 bs)"
      by (intro toString_seq) auto
    moreover have "utf8_toString r = r"
      using "2.IH"(4) [OF refl _ _ _ _ bs] four r by simp
    ultimately show ?thesis using bs by simp
  qed
qed

section \<open>The assertion builder\<close>

text \<open>
  C4. At Unix time \<open>t\<close> (the clock reads a millisecond within the second \<open>t\<close>),
  \<open>generateJWT\<close> has \<open>jsonwebtoken\<close> sign, with the private key and the algorithm
  RS256, the payload whose \<open>iss\<close> is the configured issuer, \<open>sub\<close> the configured
  client identifier, \<open>aud\<close> the token endpoint and \<open>exp\<close> is \<open>t + 300\<close>; it returns
  what the signing returns.
\<close>

theorem generateJWT_payload:
  assumes "1000 * t \<le> date_now w" and "date_now w < 1000 * t + 1000"
  shows "generateJWT w c =
           jwt_sign w
             \<lparr>iss = ISSUER c, sub = CLIENT_ID c, aud = EPIC_TOKEN_URL,
              exp = t + 300, jti = drop 2 (math_random w)\<rparr>
             (PRIVATE_KEY c) ''RS256''"
proof -
  from assms have "date_now w div 1000 = t"
    by arith
  then show ?thesis
    by (simp add: generateJWT_def jwt_claims_def)
qed

theorem generateJWT_payload_witness:
  "generateJWT (mock_world mock_epic) mock_credential =
     mock_sign
       \<lparr>iss = ''issuer-1'', sub = ''client-1'', aud = EPIC_TOKEN_URL,
        exp = 1700000300, jti = ''4fzyo82mvyr''\<rparr>
       ''PEM'' ''RS256''"
  using generateJWT_payload [of 1700000000 "mock_world mock_epic" mock_credential]
  by (simp add: mock_world_def mock_credential_def)

text \<open>
  C6. Two assertions built one after the other have distinct \<open>jti\<close> values exactly
  when the two draws of \<open>Math.random()\<close> differ (each a nonzero draw, which base 36
  prints as \<open>0.\<close> followed by digits); nothing but the draw goes into the \<open>jti\<close>.
\<close>

theorem jti_distinct_iff_draws_differ:
  assumes "take 2 r1 = ''0.''" and "take 2 r2 = ''0.''"
  shows "jti (jwt_claims c t1 r1) \<noteq> jti (jwt_claims c t2 r2) \<longleftrightarrow> r1 \<noteq> r2"
proof -
  have "r1 = ''0.'' @ drop 2 r1" "r2 = ''0.'' @ drop 2 r2"
    using assms append_take_drop_id [of 2 r1] append_take_drop_id [of 2 r2] by simp_all
  then have "drop 2 r1 = drop 2 r2 \<longleftrightarrow> r1 = r2"
    by metis
  then show ?thesis
    by (simp add: jwt_claims_def)
qed

theorem jti_distinct_iff_draws_differ_witness:
  "jti (jwt_claims mock_credential 1700000000123 ''0.4fzyo82mvyr'')
     \<noteq> jti (jwt_claims mock_credential 1700000000123 ''0.9x8c7v6b5n'')"
proof -
  have "take 2 ''0.4fzyo82mvyr'' = ''0.''" "take 2 ''0.9x8c7v6b5n'' = ''0.''"
    by simp_all
  from jti_distinct_iff_draws_differ [OF this] show ?thesis
    by simp
qed

text \<open>
  As the claim states it, every two assertions in succession differ in their \<open>jti\<close>:
  they do not when the random source gives the same draw twice, one millisecond apart.
\<close>

theorem jti_repeats_counterexample:
  "jti (jwt_claims mock_credential 1700000000123 ''0.4fzyo82mvyr'')
     = jti (jwt_claims mock_credential 1700000000124 ''0.4fzyo82mvyr'')"
  by (simp add: jwt_claims_def)

section \<open>The token exchange\<close>

lemma getAccessToken_run:
  "getAccessToken w c tr =
     (case generateJWT w c of
        Inl e \<Rightarrow> (Inl e, tr)
      | Inr a \<Rightarrow>
          ((case network w tr (token_request a) of
              Reply st hs d \<Rightarrow>
                (if 200 \<le> st \<and> st < 300 then js_get (Some d) ''access_token''
                 else Inl (Thrown (''Request failed with status code '' @ show_nat st) (Some d)))
            | NoReply m \<Rightarrow> Inl (Thrown m None)),
           tr @ [token_request a]))"
  by (auto simp add: getAccessToken_def io_bind_def io_of_def axios_def
      split: sum.splits reply.splits)

lemma getAccessToken_trace:
  assumes "getAccessToken w c tr = (Inr tok, tr')"
  shows "\<exists>a. generateJWT w c = Inr a \<and> tr' = tr @ [token_request a]"
  using assms by (auto simp add: getAccessToken_run split: sum.splits)

lemma token_failure:
  "getAccessToken w c tr = (Inl e, tr') \<Longrightarrow> io_try (io_bind (getAccessToken w c) f) h tr = (h e, tr')"
  by (simp add: io_try_def io_bind_def)

lemma after_token:
  "getAccessToken w c tr = (Inr tok, tr') \<Longrightarrow>
     io_try (io_bind (getAccessToken w c) f) h tr = io_try (f tok) h tr'"
  by (simp add: io_try_def io_bind_def)

lemma status_error_envelope: "status (error_envelope m e) = 500"
  by (simp add: error_envelope_def res_json_def)

lemma serve_token_failure:
  assumes "getAccessToken w c tr = (Inl e, tr')"
  shows "snd (serve w c rq tr) = tr'" and "status (fst (serve w c rq tr)) = 500"
  using assms
  by (cases "route rq";
      simp add: serve_def patient_def patient_match_def patient_search_def appointments_def
        scheduled_surgery_def appointment_find_def observation_def bulk_export_def
        bulk_status_def bulk_download_def authenticate_def token_failure
        status_error_envelope res_json_def)+

subsection \<open>The mocked worlds\<close>

lemma url_token_request: "url (token_request a) = JStr EPIC_TOKEN_URL"
  by (simp add: token_request_def)

lemma mock_generateJWT: "generateJWT (mock_world net) mock_credential = Inr ''h.4fzyo82mvyr.s''"
  by (simp add: generateJWT_def mock_world_def mock_sign_def jwt_claims_def mock_credential_def)

lemma mock_network: "network (mock_world net) tr rq = net rq"
  by (simp add: mock_world_def)

lemma mock_epic_token:
  "getAccessToken (mock_world mock_epic) mock_credential [] =
     (Inr (Some (JStr ''T'')), [token_request ''h.4fzyo82mvyr.s''])"
  by (simp add: getAccessToken_run mock_generateJWT mock_network mock_epic_def
      url_token_request js_get_def)

lemma mock_tokenless_token:
  "getAccessToken (mock_world mock_tokenless) mock_credential [] =
     (Inr None, [token_request ''h.4fzyo82mvyr.s''])"
  by (simp add: getAccessToken_run mock_generateJWT mock_network mock_tokenless_def js_get_def)

text \<open>
  C1. With a signed assertion in hand: when the authorization server answers 2xx with a
  JSON object whose \<open>access_token\<close> is the string \<open>T\<close>, \<open>getAccessToken\<close> returns
  exactly \<open>T\<close>; when it answers outside 2xx or does not answer, \<open>getAccessToken\<close>
  throws, and every route then answers 500 having made no call but the token request;
  when it answers 2xx with an object that has no \<open>access_token\<close>, \<open>getAccessToken\<close>
  returns \<open>undefined\<close> and throws nothing.
\<close>

theorem token_exchange_outcomes:
  assumes "generateJWT w c = Inr a"
  shows
    "(\<forall>st hs kv T.
        network w [] (token_request a) = Reply st hs (JObj kv) \<and> 200 \<le> st \<and> st < 300
          \<and> map_of kv ''access_token'' = Some (JStr T)
        \<longrightarrow> getAccessToken w c [] = (Inr (Some (JStr T)), [token_request a]))
     \<and> ((\<exists>st hs d. network w [] (token_request a) = Reply st hs d \<and> \<not> (200 \<le> st \<and> st < 300))
          \<or> (\<exists>m. network w [] (token_request a) = NoReply m)
        \<longrightarrow> (\<exists>e. getAccessToken w c [] = (Inl e, [token_request a]))
            \<and> (\<forall>rq. status (fst (handle w c rq)) = 500 \<and> snd (handle w c rq) = [token_request a]))
     \<and> (\<forall>st hs kv.
        network w [] (token_request a) = Reply st hs (JObj kv) \<and> 200 \<le> st \<and> st < 300
          \<and> map_of kv ''access_token'' = None
        \<longrightarrow> getAccessToken w c [] = (Inr None, [token_request a]))"
proof (intro conjI allI impI)
  fix st hs kv T
  assume "network w [] (token_request a) = Reply st hs (JObj kv) \<and> 200 \<le> st \<and> st < 300
          \<and> map_of kv ''access_token'' = Some (JStr T)"
  with assms show "getAccessToken w c [] = (Inr (Some (JStr T)), [token_request a])"
    by (simp add: getAccessToken_run js_get_def)
next
  fix st hs kv
  assume "network w [] (token_request a) = Reply st hs (JObj kv) \<and> 200 \<le> st \<and> st < 300
          \<and> map_of kv ''access_token'' = None"
  with assms show "getAccessToken w c [] = (Inr None, [token_request a])"
    by (simp add: getAccessToken_run js_get_def)
next
  assume "(\<exists>st hs d. network w [] (token_request a) = Reply st hs d \<and> \<not> (200 \<le> st \<and> st < 300))
          \<or> (\<exists>m. network w [] (token_request a) = NoReply m)"
  with assms show thrown: "\<exists>e. getAccessToken w c [] = (Inl e, [token_request a])"
    by (auto simp add: getAccessToken_run)
  fix rq
  from thrown obtain e where "getAccessToken w c [] = (Inl e, [token_request a])" ..
  then show "status (fst (handle w c rq)) = 500" "snd (handle w c rq) = [token_request a]"
    by (simp_all add: handle_def serve_token_failure)
qed

theorem token_exchange_outcomes_witness:
  "getAccessToken (mock_world mock_epic) mock_credential [] =
     (Inr (Some (JStr ''T'')), [token_request ''h.4fzyo82mvyr.s''])
   \<and> status (fst (handle (mock_world mock_denied) mock_credential (mock_inbound GetDocument))) = 500
   \<and> snd (handle (mock_world mock_denied) mock_credential (mock_inbound GetDocument)) =
       [token_request ''h.4fzyo82mvyr.s'']
   \<and> getAccessToken (mock_world mock_tokenless) mock_credential [] =
       (Inr None, [token_request ''h.4fzyo82mvyr.s''])"
proof -
  have issued:
    "network (mock_world mock_epic) [] (token_request ''h.4fzyo82mvyr.s'') =
       Reply 200 [] (JObj [(''access_token'', JStr ''T''), (''token_type'', JStr ''bearer'')])
     \<and> (200 :: nat) \<le> 200 \<and> (200 :: nat) < 300
     \<and> map_of [(''access_token'', JStr ''T''), (''token_type'', JStr ''bearer'')] ''access_token''
         = Some (JStr ''T'')"
    by (simp add: mock_network mock_epic_def url_token_request)
  have denied:
    "(\<exists>st hs d. network (mock_world mock_denied) [] (token_request ''h.4fzyo82mvyr.s'') = Reply st hs d
        \<and> \<not> (200 \<le> st \<and> st < 300))
     \<or> (\<exists>m. network (mock_world mock_denied) [] (token_request ''h.4fzyo82mvyr.s'') = NoReply m)"
    by (simp add: mock_network mock_denied_def)
  have tokenless:
    "network (mock_world mock_tokenless) [] (token_request ''h.4fzyo82mvyr.s'') = Reply 200 [] (JObj [])
     \<and> (200 :: nat) \<le> 200 \<and> (200 :: nat) < 300 \<and> map_of [] ''access_token'' = (None :: json option)"
    by (simp add: mock_network mock_tokenless_def)
  note returned =
    token_exchange_outcomes [OF mock_generateJWT [of mock_epic], THEN conjunct1, rule_format, OF issued]
  note thrown =
    token_exchange_outcomes [OF mock_generateJWT [of mock_denied], THEN conjunct2, THEN conjunct1,
      rule_format, OF denied, THEN conjunct2, rule_format, of "mock_inbound GetDocument"]
  note undefined_token =
    token_exchange_outcomes [OF mock_generateJWT [of mock_tokenless], THEN conjunct2, THEN conjunct2,
      rule_format, OF tokenless]
  from returned thrown undefined_token show ?thesis
    by (intro conjI) (erule conjunct1 conjunct2 | assumption)+
qed

text \<open>
  As the claim states it, a body without \<open>access_token\<close> is a failure of the exchange
  after which no downstream call is made. Against an authorization server that answers
  200 with \<open>{}\<close>, \<open>getAccessToken\<close> returns \<open>undefined\<close>, and \<open>GET /patient\<close>
  goes on to call the FHIR server with \<open>Bearer undefined\<close>.
\<close>

theorem token_missing_counterexample:
  "getAccessToken (mock_world mock_tokenless) mock_credential [] =
     (Inr None, [token_request ''h.4fzyo82mvyr.s''])
   \<and> snd (handle (mock_world mock_tokenless) mock_credential (mock_inbound GetPatient)) =
       [token_request ''h.4fzyo82mvyr.s'',
        \<lparr>req_method = GET,
         url = JStr (EPIC_FHIR_URL @ ''/Patient/erXuFYUfucBZaryVksYEcMg3''),
         req_headers = [(''Authorization'', ''Bearer undefined''), (''Accept'', ''application/json'')],
         req_body = None,
         responseType = None\<rparr>]"
  by (simp add: mock_tokenless_token handle_def serve_def mock_inbound_def patient_def
      after_token [OF mock_tokenless_token] callEpicAPI_def template_def io_bind_def io_of_def
      io_try_def io_return_def axios_def mock_network mock_tokenless_def)

section \<open>Validation of the inbound request\<close>

lemma upload_url_missing:
  assumes "body rq = Some j"
    and "js_get (Some j) ''documentUrl'' = Inr None \<or> js_get (Some j) ''patientId'' = Inr None"
  shows "upload_url w rq tok tr =
           (res_json 400 [(''error'', Some (JStr ''documentUrl and patientId are required''))], tr)"
  using assms
  by (cases j)
    (auto simp add: upload_url_def destructure_body_def js_get_def io_try_def io_bind_def io_of_def
      io_return_def)

lemma upload_url_bodiless:
  assumes "body rq = None \<or> body rq = Some JNull"
  shows "\<exists>m. upload_url w rq tok tr =
           (res_json 500
              [(''success'', Some (JBool False)),
               (''message'', Some (JStr ''Error uploading document URL'')),
               (''error'', Some (JStr m))], tr)"
  using assms
  by (auto simp add: upload_url_def destructure_body_def io_try_def io_bind_def io_of_def
      error_envelope_def data_or_message_def TypeError_def)

lemma bulk_status_missing:
  assumes "getAccessToken w c tr0 = (Inr tok, tr)" and "map_of (query rq) ''statusUrl'' = None"
  shows "bulk_status w c rq tr0 =
           (res_json 400 [(''success'', Some (JBool False)),
                          (''message'', Some (JStr ''Missing statusUrl parameter''))], tr)"
  using assms(2)
  by (simp only: bulk_status_def after_token [OF assms(1)])
    (simp add: Let_def io_try_def io_return_def)

lemma bulk_download_missing:
  assumes "getAccessToken w c tr0 = (Inr tok, tr)" and "map_of (query rq) ''fileUrl'' = None"
  shows "bulk_download w c rq tr0 =
           (res_json 400 [(''success'', Some (JBool False)),
                          (''message'', Some (JStr ''Missing fileUrl parameter''))], tr)"
  using assms(2)
  by (simp only: bulk_download_def after_token [OF assms(1)])
    (simp add: Let_def io_try_def io_return_def)

text \<open>
  C2. Once the token exchange has returned, a request that lacks a required parameter
  (\<open>documentUrl\<close> or \<open>patientId\<close> of \<open>POST /upload-url\<close>, whose body is any
  JSON value but \<open>null\<close>; \<open>statusUrl\<close> of \<open>GET /bulk-status\<close>; \<open>fileUrl\<close>
  of \<open>GET /bulk-download\<close>) is answered 400 with a message that names what is missing,
  and no call follows the token request: the trace is that one call. (Reading a property
  of \<open>null\<close> or of no body at all throws, so \<open>js_get\<close> gives \<open>undefined\<close>
  only for a body that is there and not \<open>null\<close>.) A \<open>POST /upload-url\<close> with no
  body, or with the body \<open>null\<close>, is answered 500 with the message
  \<open>Error uploading document URL\<close> instead, again with no call after the token request.
\<close>

theorem validation_follows_token_exchange:
  assumes "getAccessToken w c [] = (Inr tok, tr)"
  shows "(\<forall>j. route rq = PostUploadUrl \<and> body rq = Some j
              \<and> (js_get (Some j) ''documentUrl'' = Inr None
                   \<or> js_get (Some j) ''patientId'' = Inr None)
            \<longrightarrow> handle w c rq =
                  (res_json 400 [(''error'', Some (JStr ''documentUrl and patientId are required''))], tr))
       \<and> (route rq = PostUploadUrl \<and> (body rq = None \<or> body rq = Some JNull)
            \<longrightarrow> (\<exists>m. handle w c rq =
                  (res_json 500
                     [(''success'', Some (JBool False)),
                      (''message'', Some (JStr ''Error uploading document URL'')),
                      (''error'', Some (JStr m))], tr)))
       \<and> (route rq = GetBulkStatus \<and> map_of (query rq) ''statusUrl'' = None
            \<longrightarrow> handle w c rq =
                  (res_json 400 [(''success'', Some (JBool False)),
                                 (''message'', Some (JStr ''Missing statusUrl parameter''))], tr))
       \<and> (route rq = GetBulkDownload \<and> map_of (query rq) ''fileUrl'' = None
            \<longrightarrow> handle w c rq =
                  (res_json 400 [(''success'', Some (JBool False)),
                                 (''message'', Some (JStr ''Missing fileUrl parameter''))], tr))
       \<and> (\<exists>a. tr = [token_request a])"
proof (intro conjI allI impI)
  fix j
  assume "route rq = PostUploadUrl \<and> body rq = Some j
              \<and> (js_get (Some j) ''documentUrl'' = Inr None
                   \<or> js_get (Some j) ''patientId'' = Inr None)"
  then show "handle w c rq =
      (res_json 400 [(''error'', Some (JStr ''documentUrl and patientId are required''))], tr)"
    using assms by (simp add: handle_def serve_def authenticate_def upload_url_missing [of rq j])
next
  assume a: "route rq = PostUploadUrl \<and> (body rq = None \<or> body rq = Some JNull)"
  then have "handle w c rq = upload_url w rq tok tr"
    using assms by (simp add: handle_def serve_def authenticate_def)
  with a show "\<exists>m. handle w c rq =
      (res_json 500
         [(''success'', Some (JBool False)),
          (''message'', Some (JStr ''Error uploading document URL'')),
          (''error'', Some (JStr m))], tr)"
    using upload_url_bodiless [of rq w tok tr] by simp
next
  assume "route rq = GetBulkStatus \<and> map_of (query rq) ''statusUrl'' = None"
  then show "handle w c rq =
      (res_json 400 [(''success'', Some (JBool False)),
                     (''message'', Some (JStr ''Missing statusUrl parameter''))], tr)"
    by (simp add: handle_def serve_def bulk_status_missing [OF assms])
next
  assume "route rq = GetBulkDownload \<and> map_of (query rq) ''fileUrl'' = None"
  then show "handle w c rq =
      (res_json 400 [(''success'', Some (JBool False)),
                     (''message'', Some (JStr ''Missing fileUrl parameter''))], tr)"
    by (simp add: handle_def serve_def bulk_download_missing [OF assms])
next
  from getAccessToken_trace [OF assms] show "\<exists>a. tr = [token_request a]"
    by auto
qed

theorem validation_follows_token_exchange_witness:
  "handle (mock_world mock_epic) mock_credential upload_partial_example =
     (res_json 400 [(''error'', Some (JStr ''documentUrl and patientId are required''))],
      [token_request ''h.4fzyo82mvyr.s''])
   \<and> (\<exists>m. handle (mock_world mock_epic) mock_credential upload_bodiless_example =
     (res_json 500
        [(''success'', Some (JBool False)),
         (''message'', Some (JStr ''Error uploading document URL'')),
         (''error'', Some (JStr m))],
      [token_request ''h.4fzyo82mvyr.s'']))
   \<and> handle (mock_world mock_epic) mock_credential (mock_inbound GetBulkStatus) =
     (res_json 400 [(''success'', Some (JBool False)),
                    (''message'', Some (JStr ''Missing statusUrl parameter''))],
      [token_request ''h.4fzyo82mvyr.s''])
   \<and> handle (mock_world mock_epic) mock_credential (mock_inbound GetBulkDownload) =
     (res_json 400 [(''success'', Some (JBool False)),
                    (''message'', Some (JStr ''Missing fileUrl parameter''))],
      [token_request ''h.4fzyo82mvyr.s''])"
proof -
  have up: "route upload_partial_example = PostUploadUrl
      \<and> body upload_partial_example = Some (JObj [(''documentUrl'', JStr ''https://x/doc'')])
      \<and> (js_get (Some (JObj [(''documentUrl'', JStr ''https://x/doc'')])) ''documentUrl'' = Inr None
          \<or> js_get (Some (JObj [(''documentUrl'', JStr ''https://x/doc'')])) ''patientId'' = Inr None)"
    by (simp add: upload_partial_example_def mock_inbound_def js_get_def)
  have nb: "route upload_bodiless_example = PostUploadUrl
      \<and> (body upload_bodiless_example = None \<or> body upload_bodiless_example = Some JNull)"
    by (simp add: upload_bodiless_example_def mock_inbound_def)
  have st: "route (mock_inbound GetBulkStatus) = GetBulkStatus
      \<and> map_of (query (mock_inbound GetBulkStatus)) ''statusUrl'' = None"
    by (simp add: mock_inbound_def)
  have dl: "route (mock_inbound GetBulkDownload) = GetBulkDownload
      \<and> map_of (query (mock_inbound GetBulkDownload)) ''fileUrl'' = None"
    by (simp add: mock_inbound_def)
  note upload = validation_follows_token_exchange [OF mock_epic_token, of upload_partial_example,
      THEN conjunct1, rule_format, OF up]
  note bodiless = validation_follows_token_exchange [OF mock_epic_token, of upload_bodiless_example,
      THEN conjunct2, THEN conjunct1, rule_format, OF nb]
  note status = validation_follows_token_exchange [OF mock_epic_token, of "mock_inbound GetBulkStatus",
      THEN conjunct2, THEN conjunct2, THEN conjunct1, rule_format, OF st]
  note download = validation_follows_token_exchange [OF mock_epic_token, of "mock_inbound GetBulkDownload",
      THEN conjunct2, THEN conjunct2, THEN conjunct2, THEN conjunct1, rule_format, OF dl]
  from upload bodiless status download show ?thesis by (intro conjI)
qed

text \<open>
  As the claim states it, no network call is made before the check: for
  \<open>POST /upload-url\<close> without \<open>patientId\<close> the answer is 400, and the token request
  (a POST to the token endpoint) has been made.
\<close>

theorem validation_order_counterexample:
  "status (fst (handle (mock_world mock_epic) mock_credential upload_partial_example)) = 400
   \<and> snd (handle (mock_world mock_epic) mock_credential upload_partial_example)
       = [token_request ''h.4fzyo82mvyr.s'']
   \<and> req_method (token_request ''h.4fzyo82mvyr.s'') = POST
   \<and> url (token_request ''h.4fzyo82mvyr.s'') = JStr EPIC_TOKEN_URL"
  by (simp add: handle_def serve_def authenticate_def mock_epic_token mock_inbound_def
      upload_partial_example_def upload_url_missing [where j = "JObj [(''documentUrl'', JStr ''https://x/doc'')]"]
      js_get_def res_json_def token_request_def)

section \<open>Forwarding the query of a search\<close>

lemma form_encode_unreserved: "list_all form_unreserved s \<Longrightarrow> form_encode s = s"
  by (induction s) (auto simp add: form_encode_def form_byte_def form_unreserved_def Let_def)

lemma params_of_strings: "params_of_object (map (\<lambda>(k, v). (k, JStr v)) ps) = Inr ps"
  by (induction ps) auto

lemma params_toString_unreserved:
  assumes "\<forall>(k, v) \<in> set ps. list_all form_unreserved k \<and> list_all form_unreserved v"
  shows "params_toString ps = join_with ''&'' (map (\<lambda>(k, v). k @ ''='' @ v) ps)"
proof -
  from assms have "map (\<lambda>(k, v). form_encode k @ ''='' @ form_encode v) ps
      = map (\<lambda>(k, v). k @ ''='' @ v) ps"
    by (intro map_cong) (auto simp add: form_encode_unreserved)
  then show ?thesis unfolding params_toString_def by (rule arg_cong)
qed

lemma template_string: "template (Some (JStr s)) = Inr s"
  by (simp add: template_def)

lemma patient_search_run:
  assumes "getAccessToken w c tr0 = (Inr (Some (JStr T)), tr)"
    and "params_of_object (query rq) = Inr ps"
  shows "snd (patient_search w c rq tr0) =
           tr @ [\<lparr>req_method = GET,
                  url = JStr (EPIC_FHIR_URL @ ''/Patient?'' @ params_toString ps),
                  req_headers = [(''Authorization'', ''Bearer '' @ T), (''Accept'', ''application/json'')],
                  req_body = None,
                  responseType = None\<rparr>]"
  using assms(2)
  by (simp only: patient_search_def after_token [OF assms(1)])
    (simp add: callEpicAPI_def template_string io_try_def io_bind_def io_of_def io_return_def axios_def
      split: reply.splits prod.splits sum.splits)

lemma mock_search_trace:
  assumes "route rq = GetPatientSearch" and "params_of_object (query rq) = Inr ps"
  shows "map url (snd (handle (mock_world mock_epic) mock_credential rq)) =
     [JStr EPIC_TOKEN_URL, JStr (EPIC_FHIR_URL @ ''/Patient?'' @ params_toString ps)]"
  using assms(1) patient_search_run [OF mock_epic_token assms(2)]
  by (simp add: handle_def serve_def url_token_request)

text \<open>
  C9. With the token \<open>T\<close> in hand, \<open>GET /patient-search\<close> makes one upstream call, a
  GET of \<open>Patient?\<close> followed by the \<open>URLSearchParams\<close> serialisation of
  \<open>req.query\<close>: one pair \<open>name=value\<close> for each property of the parsed query, in the
  enumeration order of that object, the value converted by \<open>ToString\<close> (when no
  conversion throws) and name and value form-encoded, the pairs joined by \<open>&\<close>.
  When the names and values are strings of letters, digits and
  \<open>* - . _\<close> the pairs go up unchanged: for \<open>family=Lopez&gender=Female\<close> the query
  string is exactly \<open>family=Lopez&gender=Female\<close>.
\<close>

theorem patient_search_serialises_query:
  assumes "route rq = GetPatientSearch"
    and "getAccessToken w c [] = (Inr (Some (JStr T)), tr)"
  shows "(\<forall>ps. params_of_object (query rq) = Inr ps
            \<longrightarrow> snd (handle w c rq) =
                 tr @ [\<lparr>req_method = GET,
                        url = JStr (EPIC_FHIR_URL @ ''/Patient?'' @ params_toString ps),
                        req_headers = [(''Authorization'', ''Bearer '' @ T), (''Accept'', ''application/json'')],
                        req_body = None,
                        responseType = None\<rparr>])
       \<and> (\<forall>ps. query rq = map (\<lambda>(k, v). (k, JStr v)) ps
              \<and> (\<forall>(k, v) \<in> set ps. list_all form_unreserved k \<and> list_all form_unreserved v)
            \<longrightarrow> snd (handle w c rq) =
                 tr @ [\<lparr>req_method = GET,
                        url = JStr (EPIC_FHIR_URL @ ''/Patient?''
                                @ join_with ''&'' (map (\<lambda>(k, v). k @ ''='' @ v) ps)),
                        req_headers = [(''Authorization'', ''Bearer '' @ T), (''Accept'', ''application/json'')],
                        req_body = None,
                        responseType = None\<rparr>])"
proof -
  have h: "handle w c rq = patient_search w c rq []"
    using assms(1) by (simp add: handle_def serve_def)
  show ?thesis
  proof (intro conjI allI impI)
    fix ps
    assume "params_of_object (query rq) = Inr ps"
    then show "snd (handle w c rq) =
                 tr @ [\<lparr>req_method = GET,
                        url = JStr (EPIC_FHIR_URL @ ''/Patient?'' @ params_toString ps),
                        req_headers = [(''Authorization'', ''Bearer '' @ T), (''Accept'', ''application/json'')],
                        req_body = None,
                        responseType = None\<rparr>]"
      unfolding h by (rule patient_search_run [OF assms(2)])
  next
    fix ps
    assume a: "query rq = map (\<lambda>(k, v). (k, JStr v)) ps
              \<and> (\<forall>(k, v) \<in> set ps. list_all form_unreserved k \<and> list_all form_unreserved v)"
    then have "params_of_object (query rq) = Inr ps"
      by (simp add: params_of_strings)
    from patient_search_run [OF assms(2) this] a
    show "snd (handle w c rq) =
                 tr @ [\<lparr>req_method = GET,
                        url = JStr (EPIC_FHIR_URL @ ''/Patient?''
                                @ join_with ''&'' (map (\<lambda>(k, v). k @ ''='' @ v) ps)),
                        req_headers = [(''Authorization'', ''Bearer '' @ T), (''Accept'', ''application/json'')],
                        req_body = None,
                        responseType = None\<rparr>]"
      unfolding h by (simp add: params_toString_unreserved)
  qed
qed

theorem patient_search_serialises_query_witness:
  "snd (handle (mock_world mock_epic) mock_credential search_example) =
     [token_request ''h.4fzyo82mvyr.s''] @
     [\<lparr>req_method = GET,
       url = JStr (EPIC_FHIR_URL @ ''/Patient?''
               @ params_toString [(''family'', ''Lopez''), (''gender'', ''Female'')]),
       req_headers = [(''Authorization'', ''Bearer '' @ ''T''), (''Accept'', ''application/json'')],
       req_body = None,
       responseType = None\<rparr>]
   \<and> snd (handle (mock_world mock_epic) mock_credential search_example) =
     [token_request ''h.4fzyo82mvyr.s'',
      \<lparr>req_method = GET,
       url = JStr (EPIC_FHIR_URL @ ''/Patient?family=Lopez&gender=Female''),
       req_headers = [(''Authorization'', ''Bearer T''), (''Accept'', ''application/json'')],
       req_body = None,
       responseType = None\<rparr>]"
proof -
  let ?ps = "[(''family'', ''Lopez''), (''gender'', ''Female'')]"
  have r: "route search_example = GetPatientSearch"
    by (simp add: search_example_def mock_inbound_def)
  have p: "params_of_object (query search_example) = Inr ?ps"
    by (simp add: search_example_def)
  have q: "query search_example = map (\<lambda>(k, v). (k, JStr v)) ?ps
      \<and> (\<forall>(k, v) \<in> set ?ps. list_all form_unreserved k \<and> list_all form_unreserved v)"
    by (simp add: search_example_def form_unreserved_def)
  note inst = patient_search_serialises_query [OF r mock_epic_token]
  from inst [THEN conjunct2, rule_format, OF q]
  have "snd (handle (mock_world mock_epic) mock_credential search_example) =
     [token_request ''h.4fzyo82mvyr.s'',
      \<lparr>req_method = GET,
       url = JStr (EPIC_FHIR_URL @ ''/Patient?family=Lopez&gender=Female''),
       req_headers = [(''Authorization'', ''Bearer T''), (''Accept'', ''application/json'')],
       req_body = None,
       responseType = None\<rparr>]"
    by simp
  with inst [THEN conjunct1, rule_format, OF p] show ?thesis
    by (intro conjI)
qed

text \<open>
  As the claim states it, the parameters go up unmodified. A repeated parameter, which
  Express parses to an array, goes up as one value joined by an encoded comma; and a
  value with \<open>~\<close> and a space goes up with \<open>%7E\<close> and \<open>+\<close>.
\<close>

theorem query_rewritten_counterexample:
  "map url (snd (handle (mock_world mock_epic) mock_credential search_repeated_example)) =
     [JStr EPIC_TOKEN_URL, JStr (EPIC_FHIR_URL @ ''/Patient?family=Lopez%2CSmith'')]
   \<and> map url (snd (handle (mock_world mock_epic) mock_credential search_encoded_example)) =
     [JStr EPIC_TOKEN_URL, JStr (EPIC_FHIR_URL @ ''/Patient?name=O%7EBrien+Jr'')]"
proof -
  have "params_of_object (query search_repeated_example) = Inr [(''family'', ''Lopez,Smith'')]"
    by (simp add: search_repeated_example_def)
  moreover have "params_toString [(''family'', ''Lopez,Smith'')] = ''family=Lopez%2CSmith''"
    by (simp add: params_toString_def form_encode_def form_byte_def hex_digit_def)
  moreover have "params_of_object (query search_encoded_example) = Inr [(''name'', ''O~Brien Jr'')]"
    by (simp add: search_encoded_example_def)
  moreover have "params_toString [(''name'', ''O~Brien Jr'')] = ''name=O%7EBrien+Jr''"
    by (simp add: params_toString_def form_encode_def form_byte_def hex_digit_def)
  ultimately show ?thesis
    using mock_search_trace [of search_repeated_example "[(''family'', ''Lopez,Smith'')]"]
      mock_search_trace [of search_encoded_example "[(''name'', ''O~Brien Jr'')]"]
    by (simp add: search_repeated_example_def search_encoded_example_def mock_inbound_def)
qed

section \<open>Starting a bulk export\<close>

lemma bulk_export_run:
  assumes "getAccessToken w c tr0 = (Inr (Some (JStr T)), tr)"
    and "template (js_or (map_of (query rq) ''groupId'') (Some (JStr ''default-group-id''))) = Inr g"
    and "template (js_or (map_of (query rq) ''types'') (Some (JStr ''Patient,Observation,Encounter''))) = Inr t"
  shows "bulk_export w c rq tr0 =
     ((case network w tr (export_request g t T) of
         Reply st hs d \<Rightarrow>
           (if 200 \<le> st \<and> st < 300
            then res_json 200
                   [(''success'', Some (JBool True)),
                    (''message'', Some (JStr ''Bulk data export initiated'')),
                    (''statusUrl'', map_option JStr (map_of hs ''content-location''))]
            else error_envelope ''Error initiating bulk export''
                   (JStr (''Request failed with status code '' @ show_nat st)))
       | NoReply m \<Rightarrow> error_envelope ''Error initiating bulk export'' (JStr m)),
      tr @ [export_request g t T])"
  using assms(2,3)
  by (simp only: bulk_export_def after_token [OF assms(1)])
    (auto simp add: Let_def template_string io_try_def io_bind_def io_of_def io_return_def axios_def
      error_envelope_def split: reply.splits)

lemma bulk_export_never_400: "status (fst (bulk_export w c rq tr)) \<noteq> 400"
  by (simp add: bulk_export_def io_try_def io_bind_def io_of_def io_return_def axios_def Let_def
      res_json_def error_envelope_def split: prod.splits sum.splits reply.splits)

text \<open>
  C8. With the token \<open>T\<close> in hand, \<open>GET /bulk-export?groupId=G1&types=Patient\<close> makes
  one call after the token request, and it is the one GET of the trace: a GET of
  \<open>Group/G1/$export?_type=Patient\<close> with the header \<open>Prefer: respond-async\<close>; and
  when the upstream answers 2xx, the \<open>statusUrl\<close> of the response is the
  \<open>Content-Location\<close> header of that answer (the body of the answer is not looked at).
\<close>

theorem bulk_export_request:
  assumes "route rq = GetBulkExport"
    and "query rq = [(''groupId'', JStr ''G1''), (''types'', JStr ''Patient'')]"
    and "getAccessToken w c [] = (Inr (Some (JStr T)), [token_request a])"
  shows "snd (handle w c rq) =
           [token_request a,
            \<lparr>req_method = GET,
             url = JStr (EPIC_FHIR_URL @ ''/Group/G1/$export?_type=Patient''),
             req_headers = [(''Authorization'', ''Bearer '' @ T),
                            (''Accept'', ''application/fhir+json''),
                            (''Prefer'', ''respond-async'')],
             req_body = None,
             responseType = None\<rparr>]
         \<and> length (filter (\<lambda>call. req_method call = GET) (snd (handle w c rq))) = 1
         \<and> (\<forall>st hs d.
               network w [token_request a]
                 \<lparr>req_method = GET,
                  url = JStr (EPIC_FHIR_URL @ ''/Group/G1/$export?_type=Patient''),
                  req_headers = [(''Authorization'', ''Bearer '' @ T),
                                 (''Accept'', ''application/fhir+json''),
                                 (''Prefer'', ''respond-async'')],
                  req_body = None,
                  responseType = None\<rparr> = Reply st hs d \<and> 200 \<le> st \<and> st < 300
               \<longrightarrow> body_field (fst (handle w c rq)) ''statusUrl''
                     = map_option JStr (map_of hs ''content-location''))"
proof -
  have g: "template (js_or (map_of (query rq) ''groupId'') (Some (JStr ''default-group-id''))) = Inr ''G1''"
    and t: "template (js_or (map_of (query rq) ''types'') (Some (JStr ''Patient,Observation,Encounter'')))
              = Inr ''Patient''"
    using assms(2) by (simp_all add: js_or_def template_string)
  have call: "export_request ''G1'' ''Patient'' T =
      \<lparr>req_method = GET,
       url = JStr (EPIC_FHIR_URL @ ''/Group/G1/$export?_type=Patient''),
       req_headers = [(''Authorization'', ''Bearer '' @ T),
                      (''Accept'', ''application/fhir+json''),
                      (''Prefer'', ''respond-async'')],
       req_body = None,
       responseType = None\<rparr>"
    by (simp add: export_request_def)
  have "handle w c rq = bulk_export w c rq []"
    using assms(1) by (simp add: handle_def serve_def)
  then show ?thesis
    unfolding bulk_export_run [OF assms(3) g t] call
    by (auto simp add: body_field_def res_json_def map_filter_simps token_request_def
        split: reply.splits option.splits)
qed

theorem bulk_export_request_witness:
  "snd (handle (mock_world mock_epic) mock_credential export_example) =
     [token_request ''h.4fzyo82mvyr.s'',
      \<lparr>req_method = GET,
       url = JStr (EPIC_FHIR_URL @ ''/Group/G1/$export?_type=Patient''),
       req_headers = [(''Authorization'', ''Bearer '' @ ''T''),
                      (''Accept'', ''application/fhir+json''),
                      (''Prefer'', ''respond-async'')],
       req_body = None,
       responseType = None\<rparr>]
   \<and> body_field (fst (handle (mock_world mock_epic) mock_credential export_example)) ''statusUrl''
       = Some (JStr ''https://fhir.epic.com/status/1'')"
proof -
  have r: "route export_example = GetBulkExport"
    and q: "query export_example = [(''groupId'', JStr ''G1''), (''types'', JStr ''Patient'')]"
    by (simp_all add: export_example_def mock_inbound_def)
  note inst = bulk_export_request [OF r q mock_epic_token]
  have reply: "network (mock_world mock_epic) [token_request ''h.4fzyo82mvyr.s'']
       \<lparr>req_method = GET,
        url = JStr (EPIC_FHIR_URL @ ''/Group/G1/$export?_type=Patient''),
        req_headers = [(''Authorization'', ''Bearer '' @ ''T''),
                       (''Accept'', ''application/fhir+json''),
                       (''Prefer'', ''respond-async'')],
        req_body = None,
        responseType = None\<rparr> = Reply 202 [(''content-location'', ''https://fhir.epic.com/status/1'')] (JObj [])
      \<and> (200 :: nat) \<le> 202 \<and> (202 :: nat) < 300"
    by (simp add: mock_network mock_epic_def EPIC_FHIR_URL_def EPIC_TOKEN_URL_def)
  from inst [THEN conjunct1] inst [THEN conjunct2, THEN conjunct2, rule_format, OF reply]
  show ?thesis by simp
qed

text \<open>
  C10. With the token \<open>T\<close> in hand: a \<open>GET /bulk-export\<close> without \<open>groupId\<close> calls
  \<open>Group/default-group-id/$export\<close>, with whatever \<open>types\<close> renders to as
  \<open>_type\<close>; one without \<open>types\<close> calls with
  \<open>_type=Patient,Observation,Encounter\<close>, for whatever group \<open>groupId\<close> renders to;
  and no \<open>GET /bulk-export\<close> at all is answered 400.
\<close>

theorem bulk_export_defaults:
  assumes "route rq = GetBulkExport"
    and "getAccessToken w c [] = (Inr (Some (JStr T)), tr)"
  shows "(\<forall>t. map_of (query rq) ''groupId'' = None
              \<and> template (js_or (map_of (query rq) ''types'')
                    (Some (JStr ''Patient,Observation,Encounter''))) = Inr t
            \<longrightarrow> snd (handle w c rq) = tr @ [export_request ''default-group-id'' t T])
       \<and> (\<forall>g. map_of (query rq) ''types'' = None
              \<and> template (js_or (map_of (query rq) ''groupId'')
                    (Some (JStr ''default-group-id''))) = Inr g
            \<longrightarrow> snd (handle w c rq) = tr @ [export_request g ''Patient,Observation,Encounter'' T])
       \<and> status (fst (handle w c rq)) \<noteq> 400"
proof -
  have h: "handle w c rq = bulk_export w c rq []"
    using assms(1) by (simp add: handle_def serve_def)
  show ?thesis
  proof (intro conjI allI impI)
    fix t
    assume "map_of (query rq) ''groupId'' = None
              \<and> template (js_or (map_of (query rq) ''types'')
                    (Some (JStr ''Patient,Observation,Encounter''))) = Inr t"
    then show "snd (handle w c rq) = tr @ [export_request ''default-group-id'' t T]"
      unfolding h by (subst bulk_export_run [OF assms(2)]) (simp_all add: js_or_def template_string)
  next
    fix g
    assume "map_of (query rq) ''types'' = None
              \<and> template (js_or (map_of (query rq) ''groupId'')
                    (Some (JStr ''default-group-id''))) = Inr g"
    then show "snd (handle w c rq) = tr @ [export_request g ''Patient,Observation,Encounter'' T]"
      unfolding h by (subst bulk_export_run [OF assms(2)]) (simp_all add: js_or_def template_string)
  next
    show "status (fst (handle w c rq)) \<noteq> 400"
      unfolding h by (rule bulk_export_never_400)
  qed
qed

theorem bulk_export_defaults_witness:
  "snd (handle (mock_world mock_epic) mock_credential (mock_inbound GetBulkExport)) =
     [token_request ''h.4fzyo82mvyr.s'',
      export_request ''default-group-id'' ''Patient,Observation,Encounter'' ''T'']
   \<and> url (export_request ''default-group-id'' ''Patient,Observation,Encounter'' ''T'') =
       JStr (EPIC_FHIR_URL @ ''/Group/default-group-id/$export?_type=Patient,Observation,Encounter'')
   \<and> status (fst (handle (mock_world mock_epic) mock_credential (mock_inbound GetBulkExport))) \<noteq> 400"
proof -
  have r: "route (mock_inbound GetBulkExport) = GetBulkExport"
    by (simp add: mock_inbound_def)
  have omitted: "map_of (query (mock_inbound GetBulkExport)) ''groupId'' = None
      \<and> template (js_or (map_of (query (mock_inbound GetBulkExport)) ''types'')
            (Some (JStr ''Patient,Observation,Encounter''))) = Inr ''Patient,Observation,Encounter''"
    by (simp add: mock_inbound_def js_or_def template_string)
  note inst = bulk_export_defaults [OF r mock_epic_token]
  from inst [THEN conjunct1, rule_format, OF omitted] inst [THEN conjunct2, THEN conjunct2]
  show ?thesis
    by (simp add: export_request_def)
qed

section \<open>Storing and reading back a document URL\<close>

lemma split_on_no_sep: "sep \<notin> set x \<Longrightarrow> split_on sep x = [x]"
  by (induction x) auto

lemma split_on_append:
  "sep \<notin> set x \<Longrightarrow> \<exists>ys. ys \<noteq> [] \<and> split_on sep (pre @ sep # x) = ys @ [x]"
proof (induction pre)
  case Nil
  then have "split_on sep ([] @ sep # x) = [[]] @ [x]"
    by (simp add: split_on_no_sep)
  then show ?case by blast
next
  case (Cons a pre)
  then obtain y ys where ys: "split_on sep (pre @ sep # x) = (y # ys) @ [x]"
    by (metis neq_Nil_conv)
  show ?case
  proof (cases "a = sep")
    case True
    with ys have "split_on sep ((a # pre) @ sep # x) = ([] # y # ys) @ [x]"
      by simp
    then show ?thesis by blast
  next
    case False
    with ys have "split_on sep ((a # pre) @ sep # x) = ((a # y) # ys) @ [x]"
      by simp
    then show ?thesis by blast
  qed
qed

lemma last_split_on: "sep \<notin> set x \<Longrightarrow> last (split_on sep (pre @ sep # x)) = x"
  using split_on_append [of sep x pre] by auto

lemma document_id_123: "last (split_on CHR ''/'' (pre @ ''DocumentReference/123'')) = ''123''"
  using last_split_on [of "CHR ''/''" "''123''" "pre @ ''DocumentReference''"] by simp

lemma upload_url_run:
  assumes "body rq = Some (JObj kv)"
    and "map_of kv ''documentUrl'' = Some (JStr s)" and "s \<noteq> []"
    and "truthy (map_of kv ''patientId'')"
    and "template (map_of kv ''patientId'') = Inr pid"
    and "truthy (map_of kv ''encounterId'') \<longrightarrow> (\<exists>eid. template (map_of kv ''encounterId'') = Inr eid)"
  shows "\<exists>call props.
           snd (upload_url w rq (Some (JStr T)) tr) = tr @ [call]
         \<and> req_method call = POST
         \<and> url call = JStr (EPIC_FHIR_URL @ ''/DocumentReference'')
         \<and> req_body call = Some (JObj props)
         \<and> map_of props ''subject'' = Some (JObj [(''reference'', JStr (''Patient/'' @ pid))])
         \<and> map_of props ''content'' =
             Some (JArr [JObj [(''attachment'', JObj
               [(''contentType'', JStr ''text/plain''), (''data'', JStr (base64_encode s))])]])
         \<and> (\<forall>st hs d pre.
               network w tr call = Reply st hs d \<and> 200 \<le> st \<and> st < 300
               \<and> map_of hs ''location'' = Some (pre @ ''DocumentReference/123'')
               \<longrightarrow> fst (upload_url w rq (Some (JStr T)) tr) =
                     res_json 200 [(''success'', Some (JBool True)), (''documentId'', Some (JStr ''123''))])"
proof (cases "truthy (map_of kv ''encounterId'')")
  case True
  with assms(6) obtain eid where e: "template (map_of kv ''encounterId'') = Inr eid"
    by blast
  from assms(1-5) True e show ?thesis
    by (auto simp add: upload_url_def destructure_body_def buffer_from_def template_string
        io_try_def io_bind_def io_of_def io_return_def axios_def Let_def document_id_123
        split: reply.splits)
next
  case False
  with assms(1-5) show ?thesis
    by (auto simp add: upload_url_def destructure_body_def buffer_from_def template_string
        io_try_def io_bind_def io_of_def io_return_def axios_def Let_def document_id_123
        split: reply.splits)
qed

lemma document_run:
  assumes "network w tr
             \<lparr>req_method = GET, url = JStr (EPIC_FHIR_URL @ ''/DocumentReference/'' @ param rq),
              req_headers = [(''Authorization'', ''Bearer '' @ T)], req_body = None,
              responseType = None\<rparr> = Reply st hs (JObj kv)"
    and "200 \<le> st \<and> st < 300"
    and "map_of kv ''content'' = Some (JArr (JObj c0 # cs))"
    and "map_of c0 ''attachment'' = Some (JObj att)"
    and "map_of att ''url'' = Some (JStr ref)" and "ref \<noteq> []"
    and "network w
             (tr @ [\<lparr>req_method = GET, url = JStr (EPIC_FHIR_URL @ ''/DocumentReference/'' @ param rq),
              req_headers = [(''Authorization'', ''Bearer '' @ T)], req_body = None,
              responseType = None\<rparr>])
             \<lparr>req_method = GET, url = JStr (EPIC_FHIR_URL @ ''/'' @ ref),
              req_headers = [(''Authorization'', ''Bearer '' @ T)], req_body = None,
              responseType = None\<rparr> = Reply st' hs' (JObj b)"
    and "200 \<le> st' \<and> st' < 300"
    and "map_of b ''data'' = Some (JStr d)" and "d \<noteq> []"
  shows "fst (document w rq (Some (JStr T)) tr) =
           res_json 200 [(''success'', Some (JBool True)),
                         (''documentUrl'', Some (JStr (utf8_toString (base64_decode d))))]"
  using assms
  by (simp add: document_def template_string js_get_def js_or_def length_gt_zero_def index0_def
      buffer_from_base64_def io_try_def io_bind_def io_of_def io_return_def axios_def Let_def)

subsection \<open>The example, against the mocked upstream\<close>

lemma base64_example: "base64_encode ''https://x/doc'' = ''aHR0cHM6Ly94L2RvYw==''"
  by (simp add: b64_char_def char_of_eq_iff)

lemma base64_decode_example: "base64_decode ''aHR0cHM6Ly94L2RvYw=='' = ''https://x/doc''"
proof -
  have "base64_decode ''aHR0cHM6Ly94L2RvYw=='' = base64_decode (base64_encode ''https://x/doc'')"
    by (simp only: base64_example)
  then show ?thesis
    by (simp only: base64_roundtrip)
qed

lemma utf8_wf_example: "utf8_wf ''https://x/doc''"
  by simp

lemma utf8_toString_example: "utf8_toString ''https://x/doc'' = ''https://x/doc''"
  by (rule utf8_wf_toString) simp

lemma mock_document_replies:
  "network (mock_world mock_epic) [token_request ''h.4fzyo82mvyr.s'']
     \<lparr>req_method = GET, url = JStr (EPIC_FHIR_URL @ ''/DocumentReference/'' @ ''123''),
      req_headers = [(''Authorization'', ''Bearer '' @ ''T'')], req_body = None,
      responseType = None\<rparr> =
   Reply 200 [] (JObj
             [(''resourceType'', JStr ''DocumentReference''),
              (''content'', JArr [JObj [(''attachment'', JObj [(''url'', JStr ''Binary/abc'')])]])])"
  "network (mock_world mock_epic)
     ([token_request ''h.4fzyo82mvyr.s''] @
      [\<lparr>req_method = GET, url = JStr (EPIC_FHIR_URL @ ''/DocumentReference/'' @ ''123''),
      req_headers = [(''Authorization'', ''Bearer '' @ ''T'')], req_body = None,
      responseType = None\<rparr>])
     \<lparr>req_method = GET, url = JStr (EPIC_FHIR_URL @ ''/'' @ ''Binary/abc''),
      req_headers = [(''Authorization'', ''Bearer '' @ ''T'')], req_body = None,
      responseType = None\<rparr> =
   Reply 200 [] (JObj [(''resourceType'', JStr ''Binary''), (''data'', JStr ''aHR0cHM6Ly94L2RvYw=='')])"
  by (simp_all add: mock_network mock_epic_def EPIC_FHIR_URL_def EPIC_TOKEN_URL_def)

lemma mock_upload_response:
  "fst (handle (mock_world mock_epic) mock_credential upload_example) =
     res_json 200 [(''success'', Some (JBool True)), (''documentId'', Some (JStr ''123''))]"
proof -
  have h: "handle (mock_world mock_epic) mock_credential upload_example =
      upload_url (mock_world mock_epic) upload_example (Some (JStr ''T'')) [token_request ''h.4fzyo82mvyr.s'']"
    by (simp add: handle_def serve_def authenticate_def mock_epic_token upload_example_def mock_inbound_def)
  obtain call props where call: "req_method call = POST"
      "url call = JStr (EPIC_FHIR_URL @ ''/DocumentReference'')"
    and loc: "\<forall>st hs d pre.
       network (mock_world mock_epic) [token_request ''h.4fzyo82mvyr.s''] call = Reply st hs d
         \<and> 200 \<le> st \<and> st < 300
         \<and> map_of hs ''location'' = Some (pre @ ''DocumentReference/123'')
       \<longrightarrow> fst (upload_url (mock_world mock_epic) upload_example (Some (JStr ''T''))
                 [token_request ''h.4fzyo82mvyr.s'']) =
             res_json 200 [(''success'', Some (JBool True)), (''documentId'', Some (JStr ''123''))]"
    using upload_url_run [where rq = upload_example
        and kv = "[(''documentUrl'', JStr ''https://x/doc''), (''patientId'', JStr ''P1'')]"
        and s = "''https://x/doc''" and pid = "''P1''" and w = "mock_world mock_epic" and T = "''T''"
        and tr = "[token_request ''h.4fzyo82mvyr.s'']"]
    by (auto simp add: upload_example_def mock_inbound_def template_def)
  have "network (mock_world mock_epic) [token_request ''h.4fzyo82mvyr.s''] call =
      Reply 201 [(''location'', (EPIC_FHIR_URL @ ''/'') @ ''DocumentReference/123'')] (JStr [])"
    using call by (simp add: mock_network mock_epic_def EPIC_FHIR_URL_def EPIC_TOKEN_URL_def)
  with loc [rule_format, of 201 "[(''location'', (EPIC_FHIR_URL @ ''/'') @ ''DocumentReference/123'')]"
      "JStr []" "EPIC_FHIR_URL @ ''/''"]
  show ?thesis by (simp add: h)
qed

lemma mock_document_response:
  "fst (handle (mock_world mock_epic) mock_credential (mock_inbound GetDocument)) =
       res_json 200 [(''success'', Some (JBool True)), (''documentUrl'', Some (JStr ''https://x/doc''))]"
proof -
  have "handle (mock_world mock_epic) mock_credential (mock_inbound GetDocument) =
      document (mock_world mock_epic) (mock_inbound GetDocument) (Some (JStr ''T''))
        [token_request ''h.4fzyo82mvyr.s'']"
    by (simp add: handle_def serve_def authenticate_def mock_epic_token mock_inbound_def)
  then show ?thesis
    by (simp add: document_def template_string io_try_def io_bind_def io_of_def io_return_def
        axios_def mock_network mock_epic_def mock_inbound_def EPIC_FHIR_URL_def EPIC_TOKEN_URL_def
        js_get_def js_or_def length_gt_zero_def index0_def Let_def buffer_from_base64_def
        base64_decode_example utf8_toString_example)
qed

text \<open>
  C5. With the token \<open>T\<close> in hand, for every document URL \<open>s\<close> that is not empty
  (a well-formed Unicode string, held as UTF-8):
  decoding the base64 of \<open>s\<close> as UTF-8 gives \<open>s\<close> back;
  \<open>POST /upload-url\<close> with a JSON object as body whose \<open>documentUrl\<close> is \<open>s\<close>, whose
  \<open>patientId\<close> is truthy and converted by \<open>ToString\<close> to \<open>pid\<close>, and whose
  \<open>encounterId\<close> is falsy (or absent) or else converted by \<open>ToString\<close> without
  throwing, makes one upstream call after the token request, a POST to
  \<open>DocumentReference\<close> of a resource whose subject is \<open>Patient/pid\<close> and whose
  \<open>content\<close> is one attachment of type \<open>text/plain\<close> with the base64 of \<open>s\<close> as
  data, and answers \<open>{success: true, documentId: "123"}\<close> when the upstream's 2xx
  answer has a \<open>Location\<close> ending in \<open>DocumentReference/123\<close>;
  and \<open>GET /document/:documentId\<close> answers \<open>{success: true, documentUrl: s}\<close> when the
  DocumentReference fetched (2xx, an object) has an object as first element of its
  \<open>content\<close> array with \<open>attachment.url\<close> a non-empty string, and the Binary fetched
  there (2xx, an object) has the base64 of \<open>s\<close> as \<open>data\<close>.
\<close>

theorem document_url_round_trip:
  assumes "getAccessToken w c [] = (Inr (Some (JStr T)), tr)"
    and "s \<noteq> []" and "utf8_wf s"
  shows
    "utf8_toString (base64_decode (base64_encode s)) = s
     \<and> (\<forall>kv pid.
          route rq = PostUploadUrl \<and> body rq = Some (JObj kv)
          \<and> map_of kv ''documentUrl'' = Some (JStr s)
          \<and> truthy (map_of kv ''patientId'')
          \<and> template (map_of kv ''patientId'') = Inr pid
          \<and> (truthy (map_of kv ''encounterId'')
               \<longrightarrow> (\<exists>eid. template (map_of kv ''encounterId'') = Inr eid))
          \<longrightarrow> (\<exists>call props.
                 snd (handle w c rq) = tr @ [call]
               \<and> req_method call = POST
               \<and> url call = JStr (EPIC_FHIR_URL @ ''/DocumentReference'')
               \<and> req_body call = Some (JObj props)
               \<and> map_of props ''subject'' = Some (JObj [(''reference'', JStr (''Patient/'' @ pid))])
               \<and> map_of props ''content'' =
                   Some (JArr [JObj [(''attachment'', JObj
                     [(''contentType'', JStr ''text/plain''), (''data'', JStr (base64_encode s))])]])
               \<and> (\<forall>st hs d pre.
                     network w tr call = Reply st hs d \<and> 200 \<le> st \<and> st < 300
                     \<and> map_of hs ''location'' = Some (pre @ ''DocumentReference/123'')
                     \<longrightarrow> fst (handle w c rq) =
                           res_json 200 [(''success'', Some (JBool True)),
                                         (''documentId'', Some (JStr ''123''))])))
     \<and> (\<forall>st hs kv c0 cs att ref st' hs' b.
          route rq = GetDocument
          \<and> network w tr
               \<lparr>req_method = GET, url = JStr (EPIC_FHIR_URL @ ''/DocumentReference/'' @ param rq),
                req_headers = [(''Authorization'', ''Bearer '' @ T)], req_body = None,
                responseType = None\<rparr> = Reply st hs (JObj kv)
          \<and> 200 \<le> st \<and> st < 300
          \<and> map_of kv ''content'' = Some (JArr (JObj c0 # cs))
          \<and> map_of c0 ''attachment'' = Some (JObj att)
          \<and> map_of att ''url'' = Some (JStr ref) \<and> ref \<noteq> []
          \<and> network w
               (tr @ [\<lparr>req_method = GET, url = JStr (EPIC_FHIR_URL @ ''/DocumentReference/'' @ param rq),
                req_headers = [(''Authorization'', ''Bearer '' @ T)], req_body = None,
                responseType = None\<rparr>])
               \<lparr>req_method = GET, url = JStr (EPIC_FHIR_URL @ ''/'' @ ref),
                req_headers = [(''Authorization'', ''Bearer '' @ T)], req_body = None,
                responseType = None\<rparr> = Reply st' hs' (JObj b)
          \<and> 200 \<le> st' \<and> st' < 300
          \<and> map_of b ''data'' = Some (JStr (base64_encode s))
          \<longrightarrow> fst (handle w c rq) =
                res_json 200 [(''success'', Some (JBool True)), (''documentUrl'', Some (JStr s))])"
proof (intro conjI allI impI)
  show rt: "utf8_toString (base64_decode (base64_encode s)) = s"
    using assms(3) by (simp add: base64_roundtrip utf8_wf_toString)
  {
    fix kv pid
    assume a: "route rq = PostUploadUrl \<and> body rq = Some (JObj kv)
          \<and> map_of kv ''documentUrl'' = Some (JStr s)
          \<and> truthy (map_of kv ''patientId'')
          \<and> template (map_of kv ''patientId'') = Inr pid
          \<and> (truthy (map_of kv ''encounterId'')
               \<longrightarrow> (\<exists>eid. template (map_of kv ''encounterId'') = Inr eid))"
    then have h: "handle w c rq = upload_url w rq (Some (JStr T)) tr"
      using assms(1) by (simp add: handle_def serve_def authenticate_def)
    from a assms(2) show "\<exists>call props.
                 snd (handle w c rq) = tr @ [call]
               \<and> req_method call = POST
               \<and> url call = JStr (EPIC_FHIR_URL @ ''/DocumentReference'')
               \<and> req_body call = Some (JObj props)
               \<and> map_of props ''subject'' = Some (JObj [(''reference'', JStr (''Patient/'' @ pid))])
               \<and> map_of props ''content'' =
                   Some (JArr [JObj [(''attachment'', JObj
                     [(''contentType'', JStr ''text/plain''), (''data'', JStr (base64_encode s))])]])
               \<and> (\<forall>st hs d pre.
                     network w tr call = Reply st hs d \<and> 200 \<le> st \<and> st < 300
                     \<and> map_of hs ''location'' = Some (pre @ ''DocumentReference/123'')
                     \<longrightarrow> fst (handle w c rq) =
                           res_json 200 [(''success'', Some (JBool True)),
                                         (''documentId'', Some (JStr ''123''))])"
      unfolding h by (intro upload_url_run [where kv = kv and pid = pid]) simp_all
  }
  {
    fix st hs kv c0 cs att ref st' hs' b
    assume a: "route rq = GetDocument
          \<and> network w tr
               \<lparr>req_method = GET, url = JStr (EPIC_FHIR_URL @ ''/DocumentReference/'' @ param rq),
                req_headers = [(''Authorization'', ''Bearer '' @ T)], req_body = None,
                responseType = None\<rparr> = Reply st hs (JObj kv)
          \<and> 200 \<le> st \<and> st < 300
          \<and> map_of kv ''content'' = Some (JArr (JObj c0 # cs))
          \<and> map_of c0 ''attachment'' = Some (JObj att)
          \<and> map_of att ''url'' = Some (JStr ref) \<and> ref \<noteq> []
          \<and> network w
               (tr @ [\<lparr>req_method = GET, url = JStr (EPIC_FHIR_URL @ ''/DocumentReference/'' @ param rq),
                req_headers = [(''Authorization'', ''Bearer '' @ T)], req_body = None,
                responseType = None\<rparr>])
               \<lparr>req_method = GET, url = JStr (EPIC_FHIR_URL @ ''/'' @ ref),
                req_headers = [(''Authorization'', ''Bearer '' @ T)], req_body = None,
                responseType = None\<rparr> = Reply st' hs' (JObj b)
          \<and> 200 \<le> st' \<and> st' < 300
          \<and> map_of b ''data'' = Some (JStr (base64_encode s))"
    then have h: "handle w c rq = document w rq (Some (JStr T)) tr"
      using assms(1) by (simp add: handle_def serve_def authenticate_def)
    have "fst (document w rq (Some (JStr T)) tr) =
        res_json 200 [(''success'', Some (JBool True)),
                      (''documentUrl'', Some (JStr (utf8_toString (base64_decode (base64_encode s)))))]"
      using a assms(2) by (intro document_run [of w tr rq T st hs kv c0 cs att ref st' hs' b])
        (simp_all add: base64_encode_nonempty)
    then show "fst (handle w c rq) =
        res_json 200 [(''success'', Some (JBool True)), (''documentUrl'', Some (JStr s))]"
      by (simp add: h rt)
  }
qed

theorem document_url_round_trip_witness:
  "utf8_toString (base64_decode (base64_encode ''https://x/doc'')) = ''https://x/doc''
   \<and> (\<exists>call props.
         snd (handle (mock_world mock_epic) mock_credential upload_example) =
           [token_request ''h.4fzyo82mvyr.s''] @ [call]
       \<and> req_method call = POST
       \<and> url call = JStr (EPIC_FHIR_URL @ ''/DocumentReference'')
       \<and> req_body call = Some (JObj props)
       \<and> map_of props ''subject'' = Some (JObj [(''reference'', JStr (''Patient/'' @ ''P1''))])
       \<and> map_of props ''content'' =
           Some (JArr [JObj [(''attachment'', JObj
             [(''contentType'', JStr ''text/plain''),
              (''data'', JStr (base64_encode ''https://x/doc''))])]]))
   \<and> fst (handle (mock_world mock_epic) mock_credential upload_example) =
       res_json 200 [(''success'', Some (JBool True)), (''documentId'', Some (JStr ''123''))]
   \<and> fst (handle (mock_world mock_epic) mock_credential (mock_inbound GetDocument)) =
       res_json 200 [(''success'', Some (JBool True)), (''documentUrl'', Some (JStr ''https://x/doc''))]"
proof -
  let ?kv = "[(''documentUrl'', JStr ''https://x/doc''), (''patientId'', JStr ''P1'')]"
  let ?tok = "token_request ''h.4fzyo82mvyr.s''"
  have ne: "''https://x/doc'' \<noteq> []" by simp
  note inst = document_url_round_trip [OF mock_epic_token ne utf8_wf_example]
  have posted: "route upload_example = PostUploadUrl \<and> body upload_example = Some (JObj ?kv)
      \<and> map_of ?kv ''documentUrl'' = Some (JStr ''https://x/doc'')
      \<and> truthy (map_of ?kv ''patientId'')
      \<and> template (map_of ?kv ''patientId'') = Inr ''P1''
      \<and> (truthy (map_of ?kv ''encounterId'')
           \<longrightarrow> (\<exists>eid. template (map_of ?kv ''encounterId'') = Inr eid))"
    by (simp add: upload_example_def mock_inbound_def template_def)
  from inst [of upload_example, THEN conjunct2, THEN conjunct1, rule_format, OF posted]
  obtain call props where
    sent: "snd (handle (mock_world mock_epic) mock_credential upload_example) = [?tok] @ [call]
       \<and> req_method call = POST
       \<and> url call = JStr (EPIC_FHIR_URL @ ''/DocumentReference'')
       \<and> req_body call = Some (JObj props)
       \<and> map_of props ''subject'' = Some (JObj [(''reference'', JStr (''Patient/'' @ ''P1''))])
       \<and> map_of props ''content'' =
           Some (JArr [JObj [(''attachment'', JObj
             [(''contentType'', JStr ''text/plain''),
              (''data'', JStr (base64_encode ''https://x/doc''))])]])"
    and loc: "\<forall>st hs d pre.
       network (mock_world mock_epic) [?tok] call = Reply st hs d \<and> 200 \<le> st \<and> st < 300
         \<and> map_of hs ''location'' = Some (pre @ ''DocumentReference/123'')
       \<longrightarrow> fst (handle (mock_world mock_epic) mock_credential upload_example) =
             res_json 200 [(''success'', Some (JBool True)), (''documentId'', Some (JStr ''123''))]"
    by (elim exE conjE) (rule that, intro conjI)
  have "network (mock_world mock_epic) [?tok] call =
      Reply 201 [(''location'', (EPIC_FHIR_URL @ ''/'') @ ''DocumentReference/123'')] (JStr [])"
    using sent by (simp add: mock_network mock_epic_def EPIC_FHIR_URL_def EPIC_TOKEN_URL_def)
  with loc [rule_format, of 201 "[(''location'', (EPIC_FHIR_URL @ ''/'') @ ''DocumentReference/123'')]"
      "JStr []" "EPIC_FHIR_URL @ ''/''"]
  have answered: "fst (handle (mock_world mock_epic) mock_credential upload_example) =
      res_json 200 [(''success'', Some (JBool True)), (''documentId'', Some (JStr ''123''))]"
    by simp
  have setting: "route (mock_inbound GetDocument) = GetDocument
    \<and> network (mock_world mock_epic) [token_request ''h.4fzyo82mvyr.s'']
         \<lparr>req_method = GET,
          url = JStr (EPIC_FHIR_URL @ ''/DocumentReference/'' @ param (mock_inbound GetDocument)),
          req_headers = [(''Authorization'', ''Bearer '' @ ''T'')], req_body = None,
          responseType = None\<rparr> =
        Reply 200 [] (JObj [(''resourceType'', JStr ''DocumentReference''),
          (''content'', JArr [JObj [(''attachment'', JObj [(''url'', JStr ''Binary/abc'')])]])])
    \<and> (200 :: nat) \<le> 200 \<and> (200 :: nat) < 300
    \<and> map_of [(''resourceType'', JStr ''DocumentReference''),
          (''content'', JArr [JObj [(''attachment'', JObj [(''url'', JStr ''Binary/abc'')])]])] ''content''
        = Some (JArr (JObj [(''attachment'', JObj [(''url'', JStr ''Binary/abc'')])] # []))
    \<and> map_of [(''attachment'', JObj [(''url'', JStr ''Binary/abc'')])] ''attachment''
        = Some (JObj [(''url'', JStr ''Binary/abc'')])
    \<and> map_of [(''url'', JStr ''Binary/abc'')] ''url'' = Some (JStr ''Binary/abc'')
    \<and> ''Binary/abc'' \<noteq> []
    \<and> network (mock_world mock_epic)
         ([token_request ''h.4fzyo82mvyr.s''] @
          [\<lparr>req_method = GET,
            url = JStr (EPIC_FHIR_URL @ ''/DocumentReference/'' @ param (mock_inbound GetDocument)),
            req_headers = [(''Authorization'', ''Bearer '' @ ''T'')], req_body = None,
            responseType = None\<rparr>])
         \<lparr>req_method = GET, url = JStr (EPIC_FHIR_URL @ ''/'' @ ''Binary/abc''),
          req_headers = [(''Authorization'', ''Bearer '' @ ''T'')], req_body = None,
          responseType = None\<rparr> =
        Reply 200 [] (JObj [(''resourceType'', JStr ''Binary''), (''data'', JStr ''aHR0cHM6Ly94L2RvYw=='')])
    \<and> (200 :: nat) \<le> 200 \<and> (200 :: nat) < 300
    \<and> map_of [(''resourceType'', JStr ''Binary''), (''data'', JStr ''aHR0cHM6Ly94L2RvYw=='')] ''data''
        = Some (JStr (base64_encode ''https://x/doc''))"
    unfolding base64_example using mock_document_replies by (simp add: mock_inbound_def)
  have "\<exists>call props.
         snd (handle (mock_world mock_epic) mock_credential upload_example) = [?tok] @ [call]
       \<and> req_method call = POST
       \<and> url call = JStr (EPIC_FHIR_URL @ ''/DocumentReference'')
       \<and> req_body call = Some (JObj props)
       \<and> map_of props ''subject'' = Some (JObj [(''reference'', JStr (''Patient/'' @ ''P1''))])
       \<and> map_of props ''content'' =
           Some (JArr [JObj [(''attachment'', JObj
             [(''contentType'', JStr ''text/plain''),
              (''data'', JStr (base64_encode ''https://x/doc''))])]])"
    using sent by (intro exI)
  with inst [of upload_example, THEN conjunct1] answered
    inst [of "mock_inbound GetDocument", THEN conjunct2, THEN conjunct2, rule_format, OF setting]
  show ?thesis by (intro conjI)
qed

text \<open>
  As the claim states it, every string is stored: the empty string is not.
  \<open>POST /upload-url\<close> with \<open>documentUrl = ""\<close> is answered 400, and no
  DocumentReference is posted (the trace holds the token request alone).
\<close>

theorem empty_document_url_counterexample:
  "handle (mock_world mock_epic) mock_credential upload_empty_example =
     (res_json 400 [(''error'', Some (JStr ''documentUrl and patientId are required''))],
      [token_request ''h.4fzyo82mvyr.s''])"
  by (simp add: handle_def serve_def authenticate_def mock_epic_token upload_empty_example_def
      mock_inbound_def upload_url_def destructure_body_def io_try_def io_bind_def io_of_def
      io_return_def)

section \<open>Reading a document whose resources lack a field\<close>

lemma document_without_reference:
  assumes "network w tr
             \<lparr>req_method = GET, url = JStr (EPIC_FHIR_URL @ ''/DocumentReference/'' @ param rq),
              req_headers = [(''Authorization'', ''Bearer '' @ T)], req_body = None,
              responseType = None\<rparr> = Reply st hs (JObj kv)"
    and "200 \<le> st \<and> st < 300"
    and "map_of kv ''content'' = None \<or> map_of kv ''content'' = Some (JArr [])
         \<or> (\<exists>c0 cs att. map_of kv ''content'' = Some (JArr (JObj c0 # cs))
               \<and> map_of c0 ''attachment'' = Some (JObj att) \<and> map_of att ''url'' = None)"
  shows "fst (document w rq (Some (JStr T)) tr) =
           res_json 404 [(''success'', Some (JBool False)),
                         (''message'', Some (JStr ''No Binary reference found in DocumentReference''))]"
  using assms
  by (auto simp add: document_def template_string js_get_def js_or_def length_gt_zero_def index0_def
      io_try_def io_bind_def io_of_def io_return_def axios_def Let_def)

lemma document_without_data:
  assumes "network w tr
             \<lparr>req_method = GET, url = JStr (EPIC_FHIR_URL @ ''/DocumentReference/'' @ param rq),
              req_headers = [(''Authorization'', ''Bearer '' @ T)], req_body = None,
              responseType = None\<rparr> = Reply st hs (JObj kv)"
    and "200 \<le> st \<and> st < 300"
    and "map_of kv ''content'' = Some (JArr (JObj c0 # cs))"
    and "map_of c0 ''attachment'' = Some (JObj att)"
    and "map_of att ''url'' = Some (JStr ref)" and "ref \<noteq> []"
    and "network w
             (tr @ [\<lparr>req_method = GET, url = JStr (EPIC_FHIR_URL @ ''/DocumentReference/'' @ param rq),
              req_headers = [(''Authorization'', ''Bearer '' @ T)], req_body = None,
              responseType = None\<rparr>])
             \<lparr>req_method = GET, url = JStr (EPIC_FHIR_URL @ ''/'' @ ref),
              req_headers = [(''Authorization'', ''Bearer '' @ T)], req_body = None,
              responseType = None\<rparr> = Reply st' hs' (JObj b)"
    and "200 \<le> st' \<and> st' < 300"
    and "map_of b ''data'' = None"
  shows "fst (document w rq (Some (JStr T)) tr) =
           res_json 500 [(''success'', Some (JBool False)),
                         (''message'', Some (JStr ''Binary resource does not contain data'')),
                         (''epicResponse'', Some (JObj b))]"
  using assms
  by (simp add: document_def template_string js_get_def js_or_def length_gt_zero_def index0_def
      io_try_def io_bind_def io_of_def io_return_def axios_def Let_def)

text \<open>
  C7. A DocumentReference without \<open>content\<close>, with an empty \<open>content\<close>, or whose
  first attachment has no \<open>url\<close> is answered 404 with its own message, and a Binary
  without \<open>data\<close> 500 with its own message (the two lemmas above). But a
  DocumentReference whose first \<open>content\<close> element has no \<open>attachment\<close> at all has
  no \<open>content[0].attachment.url\<close> either, and for it the route answers through its
  catch-all: 500, \<open>Error retrieving document\<close>, with the message of the TypeError that
  reading \<open>url\<close> of \<open>undefined\<close> throws. Here the upstream answers
  \<open>{"resourceType": "DocumentReference", "content": [{}]}\<close>.
\<close>

theorem missing_attachment_generic_error:
  "fst (handle (mock_world mock_epic) mock_credential broken_document_example) =
     error_envelope ''Error retrieving document''
       (JStr (''Cannot read properties of undefined (reading '' @ [CHR 0x27] @ ''url'' @ [CHR 0x27] @ '')''))"
proof -
  have "handle (mock_world mock_epic) mock_credential broken_document_example =
      document (mock_world mock_epic) broken_document_example (Some (JStr ''T''))
        [token_request ''h.4fzyo82mvyr.s'']"
    by (simp add: handle_def serve_def authenticate_def mock_epic_token mock_inbound_def
        broken_document_example_def)
  then show ?thesis
    by (simp add: document_def template_string io_try_def io_bind_def io_of_def io_return_def
        axios_def mock_network mock_epic_def mock_inbound_def broken_document_example_def
        EPIC_FHIR_URL_def EPIC_TOKEN_URL_def js_get_def js_or_def length_gt_zero_def index0_def
        Let_def TypeError_def data_or_message_def)
qed

section \<open>The shape of the responses\<close>

lemma io_try_cases:
  assumes "\<And>e. P (h e)" and "\<And>x tr'. m tr = (Inr x, tr') \<Longrightarrow> P x"
  shows "P (fst (io_try m h tr))"
  using assms by (auto simp add: io_try_def split: prod.splits sum.splits)

lemma io_bind_Inr:
  assumes "io_bind m f tr = (Inr y, tr')"
  obtains x tr1 where "m tr = (Inr x, tr1)" and "f x tr1 = (Inr y, tr')"
  using assms by (auto simp add: io_bind_def split: prod.splits sum.splits)

lemma io_return_Inr: "io_return x tr = (Inr y, tr') \<Longrightarrow> y = x"
  by (simp add: io_return_def)

lemma authenticate_cases:
  assumes "\<And>m. P (res_json 500
             [(''success'', Some (JBool False)),
              (''message'', Some (JStr ''Authentication failed'')),
              (''error'', Some (JStr m))])"
    and "\<And>tok tr'. P (fst (next tok tr'))"
  shows "P (fst (authenticate w c next tr))"
  using assms by (auto simp add: authenticate_def split: prod.splits sum.splits)

subsection \<open>The routes of \<open>server.js\<close>\<close>

lemma patient_answers:
  "(\<exists>m d. fst (patient w c rq tr) = ok_envelope 200 m d)
   \<or> (\<exists>m e. fst (patient w c rq tr) = error_envelope m e)"
  unfolding patient_def
  by (rule_tac io_try_cases [where P = "\<lambda>r. (\<exists>m d. r = ok_envelope 200 m d) \<or> (\<exists>m e. r = error_envelope m e)"])
    (auto elim!: io_bind_Inr dest!: io_return_Inr)

lemma patient_match_answers:
  "(\<exists>m d. fst (patient_match w c rq tr) = ok_envelope 200 m d)
   \<or> (\<exists>m e. fst (patient_match w c rq tr) = error_envelope m e)"
  unfolding patient_match_def
  by (rule_tac io_try_cases [where P = "\<lambda>r. (\<exists>m d. r = ok_envelope 200 m d) \<or> (\<exists>m e. r = error_envelope m e)"])
    (auto elim!: io_bind_Inr dest!: io_return_Inr)

lemma patient_search_answers:
  "(\<exists>m d. fst (patient_search w c rq tr) = ok_envelope 200 m d)
   \<or> (\<exists>m e. fst (patient_search w c rq tr) = error_envelope m e)"
  unfolding patient_search_def
  by (rule_tac io_try_cases [where P = "\<lambda>r. (\<exists>m d. r = ok_envelope 200 m d) \<or> (\<exists>m e. r = error_envelope m e)"])
    (auto elim!: io_bind_Inr dest!: io_return_Inr)

lemma appointments_answers:
  "(\<exists>m d. fst (appointments w c rq tr) = ok_envelope 200 m d)
   \<or> (\<exists>m e. fst (appointments w c rq tr) = error_envelope m e)"
  unfolding appointments_def
  by (rule_tac io_try_cases [where P = "\<lambda>r. (\<exists>m d. r = ok_envelope 200 m d) \<or> (\<exists>m e. r = error_envelope m e)"])
    (auto elim!: io_bind_Inr dest!: io_return_Inr)

lemma scheduled_surgery_answers:
  "(\<exists>m d. fst (scheduled_surgery w c rq tr) = ok_envelope 200 m d)
   \<or> (\<exists>m e. fst (scheduled_surgery w c rq tr) = error_envelope m e)"
  unfolding scheduled_surgery_def
  by (rule_tac io_try_cases [where P = "\<lambda>r. (\<exists>m d. r = ok_envelope 200 m d) \<or> (\<exists>m e. r = error_envelope m e)"])
    (auto elim!: io_bind_Inr dest!: io_return_Inr)

lemma appointment_find_answers:
  "(\<exists>m d. fst (appointment_find w c rq tr) = ok_envelope 200 m d)
   \<or> (\<exists>m e. fst (appointment_find w c rq tr) = error_envelope m e)"
  unfolding appointment_find_def
  by (rule_tac io_try_cases [where P = "\<lambda>r. (\<exists>m d. r = ok_envelope 200 m d) \<or> (\<exists>m e. r = error_envelope m e)"])
    (auto elim!: io_bind_Inr dest!: io_return_Inr)

lemma observation_answers:
  "(\<exists>m d. fst (observation w c rq tr) = ok_envelope 201 m d)
   \<or> (\<exists>m e. fst (observation w c rq tr) = error_envelope m e)"
  unfolding observation_def
  by (rule_tac io_try_cases [where P = "\<lambda>r. (\<exists>m d. r = ok_envelope 201 m d) \<or> (\<exists>m e. r = error_envelope m e)"])
    (auto elim!: io_bind_Inr dest!: io_return_Inr)

lemma server_js_answers:
  assumes "route rq \<in> set server_js_routes"
  shows "(\<exists>m d. fst (handle w c rq) =
            res_json (if route rq = PostObservation then 201 else 200)
              [(''success'', Some (JBool True)), (''message'', Some (JStr m)), (''data'', Some d)])
       \<or> (\<exists>m e. fst (handle w c rq) =
            res_json 500
              [(''success'', Some (JBool False)), (''message'', Some (JStr m)), (''error'', Some e)])"
proof -
  consider "route rq = GetPatient" | "route rq = PostPatientMatch" | "route rq = GetPatientSearch"
    | "route rq = GetAppointments" | "route rq = GetScheduledSurgery"
    | "route rq = PostAppointmentFind" | "route rq = PostObservation"
    using assms by (auto simp add: server_js_routes_def)
  then show ?thesis
  proof cases
    case 1
    then show ?thesis
      using patient_answers [of w c rq "[]"]
      by (simp add: handle_def serve_def ok_envelope_def error_envelope_def)
  next
    case 2
    then show ?thesis
      using patient_match_answers [of w c rq "[]"]
      by (simp add: handle_def serve_def ok_envelope_def error_envelope_def)
  next
    case 3
    then show ?thesis
      using patient_search_answers [of w c rq "[]"]
      by (simp add: handle_def serve_def ok_envelope_def error_envelope_def)
  next
    case 4
    then show ?thesis
      using appointments_answers [of w c rq "[]"]
      by (simp add: handle_def serve_def ok_envelope_def error_envelope_def)
  next
    case 5
    then show ?thesis
      using scheduled_surgery_answers [of w c rq "[]"]
      by (simp add: handle_def serve_def ok_envelope_def error_envelope_def)
  next
    case 6
    then show ?thesis
      using appointment_find_answers [of w c rq "[]"]
      by (simp add: handle_def serve_def ok_envelope_def error_envelope_def)
  next
    case 7
    then show ?thesis
      using observation_answers [of w c rq "[]"]
      by (simp add: handle_def serve_def ok_envelope_def error_envelope_def)
  qed
qed

subsection \<open>The routes of \<open>files.js\<close>\<close>

lemma bulk_export_answers:
  "(\<exists>u. fst (bulk_export w c rq tr) =
          res_json 200
            [(''success'', Some (JBool True)),
             (''message'', Some (JStr ''Bulk data export initiated'')),
             (''statusUrl'', map_option JStr u)])
   \<or> (\<exists>e. fst (bulk_export w c rq tr) =
          res_json 500
            [(''success'', Some (JBool False)),
             (''message'', Some (JStr ''Error initiating bulk export'')),
             (''error'', Some e)])"
  unfolding bulk_export_def Let_def
  by (rule_tac io_try_cases [where P = "\<lambda>r. (\<exists>u. r =
          res_json 200
            [(''success'', Some (JBool True)),
             (''message'', Some (JStr ''Bulk data export initiated'')),
             (''statusUrl'', map_option JStr u)])
   \<or> (\<exists>e. r =
          res_json 500
            [(''success'', Some (JBool False)),
             (''message'', Some (JStr ''Error initiating bulk export'')),
             (''error'', Some e)])"])
    (auto simp add: error_envelope_def elim!: io_bind_Inr dest!: io_return_Inr)

lemma bulk_status_answers:
  "(\<exists>d. fst (bulk_status w c rq tr) =
          res_json 200
            [(''success'', Some (JBool True)),
             (''message'', Some (JStr ''Export status retrieved'')),
             (''data'', Some d)])
   \<or> fst (bulk_status w c rq tr) =
          res_json 400
            [(''success'', Some (JBool False)),
             (''message'', Some (JStr ''Missing statusUrl parameter''))]
   \<or> (\<exists>e. fst (bulk_status w c rq tr) =
          res_json 500
            [(''success'', Some (JBool False)),
             (''message'', Some (JStr ''Error checking export status'')),
             (''error'', Some e)])"
  unfolding bulk_status_def Let_def
  by (rule_tac io_try_cases [where P = "\<lambda>r. (\<exists>d. r =
          res_json 200
            [(''success'', Some (JBool True)),
             (''message'', Some (JStr ''Export status retrieved'')),
             (''data'', Some d)])
   \<or> r =
          res_json 400
            [(''success'', Some (JBool False)),
             (''message'', Some (JStr ''Missing statusUrl parameter''))]
   \<or> (\<exists>e. r =
          res_json 500
            [(''success'', Some (JBool False)),
             (''message'', Some (JStr ''Error checking export status'')),
             (''error'', Some e)])"])
    (auto simp add: error_envelope_def ok_envelope_def elim!: io_bind_Inr dest!: io_return_Inr
      split: if_splits)

lemma bulk_download_answers:
  "(\<exists>d. fst (bulk_download w c rq tr) =
          \<lparr>status = 200,
           out_headers = [(''Content-Disposition'',
              ''attachment; filename='' @ [CHR 0x22] @ ''bulk_data.ndjson'' @ [CHR 0x22])],
           content = Piped d\<rparr>)
   \<or> fst (bulk_download w c rq tr) =
          res_json 400
            [(''success'', Some (JBool False)),
             (''message'', Some (JStr ''Missing fileUrl parameter''))]
   \<or> (\<exists>e. fst (bulk_download w c rq tr) =
          res_json 500
            [(''success'', Some (JBool False)),
             (''message'', Some (JStr ''Error downloading bulk data'')),
             (''error'', Some e)])"
  unfolding bulk_download_def Let_def
  by (rule_tac io_try_cases [where P = "\<lambda>r. (\<exists>d. r =
          \<lparr>status = 200,
           out_headers = [(''Content-Disposition'',
              ''attachment; filename='' @ [CHR 0x22] @ ''bulk_data.ndjson'' @ [CHR 0x22])],
           content = Piped d\<rparr>)
   \<or> r =
          res_json 400
            [(''success'', Some (JBool False)),
             (''message'', Some (JStr ''Missing fileUrl parameter''))]
   \<or> (\<exists>e. r =
          res_json 500
            [(''success'', Some (JBool False)),
             (''message'', Some (JStr ''Error downloading bulk data'')),
             (''error'', Some e)])"])
    (auto simp add: error_envelope_def elim!: io_bind_Inr dest!: io_return_Inr
      split: if_splits)

subsection \<open>The routes of \<open>file-uploads.js\<close>\<close>

lemma upload_url_answers:
  "(\<exists>id. id \<noteq> [] \<and> fst (upload_url w rq tok tr) =
          res_json 200 [(''success'', Some (JBool True)), (''documentId'', Some (JStr id))])
   \<or> fst (upload_url w rq tok tr) =
          res_json 400 [(''error'', Some (JStr ''documentUrl and patientId are required''))]
   \<or> fst (upload_url w rq tok tr) =
          res_json 500
            [(''success'', Some (JBool False)),
             (''message'', Some (JStr ''Epic did not return a Document ID''))]
   \<or> (\<exists>e. fst (upload_url w rq tok tr) =
          res_json 500
            [(''success'', Some (JBool False)),
             (''message'', Some (JStr ''Error uploading document URL'')),
             (''error'', Some e)])"
proof -
  define P where "P = (\<lambda>r. (\<exists>id. id \<noteq> [] \<and> r =
          res_json 200 [(''success'', Some (JBool True)), (''documentId'', Some (JStr id))])
   \<or> r =
          res_json 400 [(''error'', Some (JStr ''documentUrl and patientId are required''))]
   \<or> r =
          res_json 500
            [(''success'', Some (JBool False)),
             (''message'', Some (JStr ''Epic did not return a Document ID''))]
   \<or> (\<exists>e. r =
          res_json 500
            [(''success'', Some (JBool False)),
             (''message'', Some (JStr ''Error uploading document URL'')),
             (''error'', Some e)]))"
  have stored: "\<And>id. id \<noteq> [] \<Longrightarrow>
      P (res_json 200 [(''success'', Some (JBool True)), (''documentId'', Some (JStr id))])"
    unfolding P_def by blast
  have required: "P (res_json 400 [(''error'', Some (JStr ''documentUrl and patientId are required''))])"
    unfolding P_def by blast
  have no_id: "P (res_json 500
            [(''success'', Some (JBool False)),
             (''message'', Some (JStr ''Epic did not return a Document ID''))])"
    unfolding P_def by blast
  have caught: "\<And>e. P (error_envelope ''Error uploading document URL'' e)"
    unfolding P_def error_envelope_def by blast
  have "P (fst (upload_url w rq tok tr))"
    unfolding upload_url_def Let_def
    by (rule io_try_cases)
      (auto simp add: stored required no_id caught elim!: io_bind_Inr dest!: io_return_Inr
        split: if_splits prod.splits)
  then show ?thesis
    unfolding P_def .
qed

lemma document_answers:
  "(\<exists>u. fst (document w rq tok tr) =
          res_json 200 [(''success'', Some (JBool True)), (''documentUrl'', Some (JStr u))])
   \<or> fst (document w rq tok tr) =
          res_json 404
            [(''success'', Some (JBool False)),
             (''message'', Some (JStr ''No Binary reference found in DocumentReference''))]
   \<or> (\<exists>d. fst (document w rq tok tr) =
          res_json 500
            [(''success'', Some (JBool False)),
             (''message'', Some (JStr ''Binary resource does not contain data'')),
             (''epicResponse'', Some d)])
   \<or> (\<exists>e. fst (document w rq tok tr) =
          res_json 500
            [(''success'', Some (JBool False)),
             (''message'', Some (JStr ''Error retrieving document'')),
             (''error'', Some e)])"
proof -
  define P where "P = (\<lambda>r. (\<exists>u. r =
          res_json 200 [(''success'', Some (JBool True)), (''documentUrl'', Some (JStr u))])
   \<or> r =
          res_json 404
            [(''success'', Some (JBool False)),
             (''message'', Some (JStr ''No Binary reference found in DocumentReference''))]
   \<or> (\<exists>d. r =
          res_json 500
            [(''success'', Some (JBool False)),
             (''message'', Some (JStr ''Binary resource does not contain data'')),
             (''epicResponse'', Some d)])
   \<or> (\<exists>e. r =
          res_json 500
            [(''success'', Some (JBool False)),
             (''message'', Some (JStr ''Error retrieving document'')),
             (''error'', Some e)]))"
  have read: "\<And>u. P (res_json 200 [(''success'', Some (JBool True)), (''documentUrl'', Some (JStr u))])"
    unfolding P_def by blast
  have no_reference: "P (res_json 404
            [(''success'', Some (JBool False)),
             (''message'', Some (JStr ''No Binary reference found in DocumentReference''))])"
    unfolding P_def by blast
  have no_data: "\<And>d. P (res_json 500
            [(''success'', Some (JBool False)),
             (''message'', Some (JStr ''Binary resource does not contain data'')),
             (''epicResponse'', Some d)])"
    unfolding P_def by blast
  have caught: "\<And>e. P (error_envelope ''Error retrieving document'' e)"
    unfolding P_def error_envelope_def by blast
  have "P (fst (document w rq tok tr))"
    unfolding document_def Let_def
    by (rule io_try_cases)
      (auto simp add: read no_reference no_data caught elim!: io_bind_Inr dest!: io_return_Inr
        split: if_splits prod.splits)
  then show ?thesis
    unfolding P_def .
qed

lemma upload_url_route_answers:
  assumes "route rq = PostUploadUrl"
  shows "(\<exists>id. id \<noteq> [] \<and> fst (handle w c rq) =
            res_json 200 [(''success'', Some (JBool True)), (''documentId'', Some (JStr id))])
       \<or> fst (handle w c rq) =
            res_json 400 [(''error'', Some (JStr ''documentUrl and patientId are required''))]
       \<or> fst (handle w c rq) =
            res_json 500
              [(''success'', Some (JBool False)),
               (''message'', Some (JStr ''Epic did not return a Document ID''))]
       \<or> (\<exists>e. fst (handle w c rq) =
            res_json 500
              [(''success'', Some (JBool False)),
               (''message'', Some (JStr ''Error uploading document URL'')),
               (''error'', Some e)])
       \<or> (\<exists>m. fst (handle w c rq) =
            res_json 500
              [(''success'', Some (JBool False)),
               (''message'', Some (JStr ''Authentication failed'')),
               (''error'', Some (JStr m))])"
proof -
  define P where "P = (\<lambda>r. (\<exists>id. id \<noteq> [] \<and> r =
            res_json 200 [(''success'', Some (JBool True)), (''documentId'', Some (JStr id))])
       \<or> r =
            res_json 400 [(''error'', Some (JStr ''documentUrl and patientId are required''))]
       \<or> r =
            res_json 500
              [(''success'', Some (JBool False)),
               (''message'', Some (JStr ''Epic did not return a Document ID''))]
       \<or> (\<exists>e. r =
            res_json 500
              [(''success'', Some (JBool False)),
               (''message'', Some (JStr ''Error uploading document URL'')),
               (''error'', Some e)])
       \<or> (\<exists>m. r =
            res_json 500
              [(''success'', Some (JBool False)),
               (''message'', Some (JStr ''Authentication failed'')),
               (''error'', Some (JStr m))]))"
  have "P (fst (authenticate w c (upload_url w rq) []))"
  proof (rule authenticate_cases)
    fix m
    show "P (res_json 500
             [(''success'', Some (JBool False)),
              (''message'', Some (JStr ''Authentication failed'')),
              (''error'', Some (JStr m))])"
      unfolding P_def by blast
  next
    fix tok tr'
    show "P (fst (upload_url w rq tok tr'))"
      using upload_url_answers [of w rq tok tr'] unfolding P_def by blast
  qed
  then show ?thesis
    using assms unfolding P_def by (simp add: handle_def serve_def)
qed

lemma document_route_answers:
  assumes "route rq = GetDocument"
  shows "(\<exists>u. fst (handle w c rq) =
            res_json 200 [(''success'', Some (JBool True)), (''documentUrl'', Some (JStr u))])
       \<or> fst (handle w c rq) =
            res_json 404
              [(''success'', Some (JBool False)),
               (''message'', Some (JStr ''No Binary reference found in DocumentReference''))]
       \<or> (\<exists>d. fst (handle w c rq) =
            res_json 500
              [(''success'', Some (JBool False)),
               (''message'', Some (JStr ''Binary resource does not contain data'')),
               (''epicResponse'', Some d)])
       \<or> (\<exists>e. fst (handle w c rq) =
            res_json 500
              [(''success'', Some (JBool False)),
               (''message'', Some (JStr ''Error retrieving document'')),
               (''error'', Some e)])
       \<or> (\<exists>m. fst (handle w c rq) =
            res_json 500
              [(''success'', Some (JBool False)),
               (''message'', Some (JStr ''Authentication failed'')),
               (''error'', Some (JStr m))])"
proof -
  define P where "P = (\<lambda>r. (\<exists>u. r =
            res_json 200 [(''success'', Some (JBool True)), (''documentUrl'', Some (JStr u))])
       \<or> r =
            res_json 404
              [(''success'', Some (JBool False)),
               (''message'', Some (JStr ''No Binary reference found in DocumentReference''))]
       \<or> (\<exists>d. r =
            res_json 500
              [(''success'', Some (JBool False)),
               (''message'', Some (JStr ''Binary resource does not contain data'')),
               (''epicResponse'', Some d)])
       \<or> (\<exists>e. r =
            res_json 500
              [(''success'', Some (JBool False)),
               (''message'', Some (JStr ''Error retrieving document'')),
               (''error'', Some e)])
       \<or> (\<exists>m. r =
            res_json 500
              [(''success'', Some (JBool False)),
               (''message'', Some (JStr ''Authentication failed'')),
               (''error'', Some (JStr m))]))"
  have "P (fst (authenticate w c (document w rq) []))"
  proof (rule authenticate_cases)
    fix m
    show "P (res_json 500
             [(''success'', Some (JBool False)),
              (''message'', Some (JStr ''Authentication failed'')),
              (''error'', Some (JStr m))])"
      unfolding P_def by blast
  next
    fix tok tr'
    show "P (fst (document w rq tok tr'))"
      using document_answers [of w rq tok tr'] unfolding P_def by blast
  qed
  then show ?thesis
    using assms unfolding P_def by (simp add: handle_def serve_def)
qed

subsection \<open>Answers of the mocked upstreams\<close>

lemma mock_bare_token:
  "getAccessToken (mock_world mock_bare) mock_credential [] =
     (Inr (Some (JStr ''T'')), [token_request ''h.4fzyo82mvyr.s''])"
  by (simp add: getAccessToken_run mock_generateJWT mock_network mock_bare_def
      url_token_request js_get_def)

lemma mock_partial_upload_response:
  "fst (handle (mock_world mock_epic) mock_credential upload_partial_example) =
     res_json 400 [(''error'', Some (JStr ''documentUrl and patientId are required''))]"
  by (simp add: handle_def serve_def authenticate_def mock_epic_token upload_partial_example_def
      mock_inbound_def upload_url_def destructure_body_def io_try_def io_bind_def io_of_def
      io_return_def)

lemma mock_status_response:
  "fst (handle (mock_world mock_epic) mock_credential (mock_inbound GetBulkStatus)) =
     res_json 400
       [(''success'', Some (JBool False)), (''message'', Some (JStr ''Missing statusUrl parameter''))]"
  using bulk_status_missing [OF mock_epic_token, of "mock_inbound GetBulkStatus"]
  by (simp add: handle_def serve_def mock_inbound_def)

lemma mock_download_response:
  "fst (handle (mock_world mock_epic) mock_credential download_example) =
     \<lparr>status = 200,
      out_headers = [(''Content-Disposition'',
         ''attachment; filename='' @ [CHR 0x22] @ ''bulk_data.ndjson'' @ [CHR 0x22])],
      content = Piped (JObj [])\<rparr>"
proof -
  have "handle (mock_world mock_epic) mock_credential download_example =
      bulk_download (mock_world mock_epic) mock_credential download_example []"
    by (simp add: handle_def serve_def download_example_def mock_inbound_def)
  then show ?thesis
    by (simp only: bulk_download_def after_token [OF mock_epic_token])
      (simp add: download_example_def mock_inbound_def template_string io_try_def io_bind_def
        io_of_def io_return_def axios_def mock_network mock_epic_def EPIC_FHIR_URL_def
        EPIC_TOKEN_URL_def)
qed

lemma mock_bare_upload_response:
  "fst (handle (mock_world mock_bare) mock_credential upload_example) =
     res_json 500
       [(''success'', Some (JBool False)),
        (''message'', Some (JStr ''Epic did not return a Document ID''))]"
proof -
  have "handle (mock_world mock_bare) mock_credential upload_example =
      upload_url (mock_world mock_bare) upload_example (Some (JStr ''T''))
        [token_request ''h.4fzyo82mvyr.s'']"
    by (simp add: handle_def serve_def authenticate_def mock_bare_token upload_example_def
        mock_inbound_def)
  then show ?thesis
    by (simp add: upload_url_def upload_example_def mock_inbound_def destructure_body_def
        buffer_from_def template_string template_def io_try_def io_bind_def io_of_def io_return_def
        axios_def mock_network mock_bare_def EPIC_FHIR_URL_def EPIC_TOKEN_URL_def Let_def)
qed

lemma mock_bare_document_response:
  "fst (handle (mock_world mock_bare) mock_credential (mock_inbound GetDocument)) =
     res_json 404
       [(''success'', Some (JBool False)),
        (''message'', Some (JStr ''No Binary reference found in DocumentReference''))]"
proof -
  have "handle (mock_world mock_bare) mock_credential (mock_inbound GetDocument) =
      document (mock_world mock_bare) (mock_inbound GetDocument) (Some (JStr ''T''))
        [token_request ''h.4fzyo82mvyr.s'']"
    by (simp add: handle_def serve_def authenticate_def mock_bare_token mock_inbound_def)
  then show ?thesis
    by (simp add: document_def template_string io_try_def io_bind_def io_of_def io_return_def
        axios_def mock_network mock_bare_def mock_inbound_def EPIC_FHIR_URL_def EPIC_TOKEN_URL_def
        js_get_def js_or_def length_gt_zero_def Let_def)
qed

subsection \<open>What every route answers\<close>

text \<open>
  C3. The answers of the twelve routes, each with the body it carries.
  A route of \<open>server.js\<close> answers 200 (201 for \<open>/observation\<close>) with
  \<open>{success: true, message, data}\<close>, \<open>message\<close> a string, or 500 with
  \<open>{success: false, message, error}\<close>.
  \<open>GET /bulk-export\<close> answers 200 with \<open>{success: true, message, statusUrl}\<close>, where
  \<open>statusUrl\<close> is a string or is left out, or 500 with \<open>{success: false, message, error}\<close>.
  \<open>GET /bulk-status\<close> answers 200 with \<open>{success: true, message, data}\<close>, 400 with
  \<open>{success: false, message}\<close>, or 500 with \<open>{success: false, message, error}\<close>.
  \<open>GET /bulk-download\<close> answers 200 with the piped file and a \<open>Content-Disposition\<close>
  header, 400 with \<open>{success: false, message}\<close>, or 500 with
  \<open>{success: false, message, error}\<close>.
  \<open>POST /upload-url\<close> answers 200 with \<open>{success: true, documentId}\<close>, the identifier
  a non-empty string, 400 with \<open>{error}\<close>, 500 with \<open>{success: false, message}\<close>, or 500
  with \<open>{success: false, message, error}\<close>.
  \<open>GET /document/:documentId\<close> answers 200 with \<open>{success: true, documentUrl}\<close>, 404 with
  \<open>{success: false, message}\<close>, 500 with \<open>{success: false, message, epicResponse}\<close>, or
  500 with \<open>{success: false, message, error}\<close>.
  The messages of the routes outside \<open>server.js\<close> are the ones written out below.
\<close>

theorem response_bodies:
  "(route rq \<in> set server_js_routes \<longrightarrow>
       (\<exists>m d. fst (handle w c rq) =
            res_json (if route rq = PostObservation then 201 else 200)
              [(''success'', Some (JBool True)), (''message'', Some (JStr m)), (''data'', Some d)])
     \<or> (\<exists>m e. fst (handle w c rq) =
            res_json 500
              [(''success'', Some (JBool False)), (''message'', Some (JStr m)), (''error'', Some e)]))
   \<and> (route rq = GetBulkExport \<longrightarrow>
       (\<exists>u. fst (handle w c rq) =
            res_json 200
              [(''success'', Some (JBool True)),
               (''message'', Some (JStr ''Bulk data export initiated'')),
               (''statusUrl'', map_option JStr u)])
     \<or> (\<exists>e. fst (handle w c rq) =
            res_json 500
              [(''success'', Some (JBool False)),
               (''message'', Some (JStr ''Error initiating bulk export'')),
               (''error'', Some e)]))
   \<and> (route rq = GetBulkStatus \<longrightarrow>
       (\<exists>d. fst (handle w c rq) =
            res_json 200
              [(''success'', Some (JBool True)),
               (''message'', Some (JStr ''Export status retrieved'')),
               (''data'', Some d)])
     \<or> fst (handle w c rq) =
            res_json 400
              [(''success'', Some (JBool False)),
               (''message'', Some (JStr ''Missing statusUrl parameter''))]
     \<or> (\<exists>e. fst (handle w c rq) =
            res_json 500
              [(''success'', Some (JBool False)),
               (''message'', Some (JStr ''Error checking export status'')),
               (''error'', Some e)]))
   \<and> (route rq = GetBulkDownload \<longrightarrow>
       (\<exists>d. fst (handle w c rq) =
            \<lparr>status = 200,
             out_headers = [(''Content-Disposition'',
                ''attachment; filename='' @ [CHR 0x22] @ ''bulk_data.ndjson'' @ [CHR 0x22])],
             content = Piped d\<rparr>)
     \<or> fst (handle w c rq) =
            res_json 400
              [(''success'', Some (JBool False)),
               (''message'', Some (JStr ''Missing fileUrl parameter''))]
     \<or> (\<exists>e. fst (handle w c rq) =
            res_json 500
              [(''success'', Some (JBool False)),
               (''message'', Some (JStr ''Error downloading bulk data'')),
               (''error'', Some e)]))
   \<and> (route rq = PostUploadUrl \<longrightarrow>
       (\<exists>id. id \<noteq> [] \<and> fst (handle w c rq) =
            res_json 200 [(''success'', Some (JBool True)), (''documentId'', Some (JStr id))])
     \<or> fst (handle w c rq) =
            res_json 400 [(''error'', Some (JStr ''documentUrl and patientId are required''))]
     \<or> fst (handle w c rq) =
            res_json 500
              [(''success'', Some (JBool False)),
               (''message'', Some (JStr ''Epic did not return a Document ID''))]
     \<or> (\<exists>e. fst (handle w c rq) =
            res_json 500
              [(''success'', Some (JBool False)),
               (''message'', Some (JStr ''Error uploading document URL'')),
               (''error'', Some e)])
     \<or> (\<exists>m. fst (handle w c rq) =
            res_json 500
              [(''success'', Some (JBool False)),
               (''message'', Some (JStr ''Authentication failed'')),
               (''error'', Some (JStr m))]))
   \<and> (route rq = GetDocument \<longrightarrow>
       (\<exists>u. fst (handle w c rq) =
            res_json 200 [(''success'', Some (JBool True)), (''documentUrl'', Some (JStr u))])
     \<or> fst (handle w c rq) =
            res_json 404
              [(''success'', Some (JBool False)),
               (''message'', Some (JStr ''No Binary reference found in DocumentReference''))]
     \<or> (\<exists>d. fst (handle w c rq) =
            res_json 500
              [(''success'', Some (JBool False)),
               (''message'', Some (JStr ''Binary resource does not contain data'')),
               (''epicResponse'', Some d)])
     \<or> (\<exists>e. fst (handle w c rq) =
            res_json 500
              [(''success'', Some (JBool False)),
               (''message'', Some (JStr ''Error retrieving document'')),
               (''error'', Some e)])
     \<or> (\<exists>m. fst (handle w c rq) =
            res_json 500
              [(''success'', Some (JBool False)),
               (''message'', Some (JStr ''Authentication failed'')),
               (''error'', Some (JStr m))]))"
  apply (intro conjI impI)
  subgoal by (rule server_js_answers)
  subgoal using bulk_export_answers [of w c rq "[]"] by (simp add: handle_def serve_def)
  subgoal using bulk_status_answers [of w c rq "[]"] by (simp add: handle_def serve_def)
  subgoal using bulk_download_answers [of w c rq "[]"] by (simp add: handle_def serve_def)
  subgoal by (rule upload_url_route_answers)
  subgoal by (rule document_route_answers)
  done

theorem response_bodies_witness:
  "((\<exists>m d. fst (handle (mock_world mock_epic) mock_credential (mock_inbound GetPatient)) =
            res_json (if route (mock_inbound GetPatient) = PostObservation then 201 else 200)
              [(''success'', Some (JBool True)), (''message'', Some (JStr m)), (''data'', Some d)])
     \<or> (\<exists>m e. fst (handle (mock_world mock_epic) mock_credential (mock_inbound GetPatient)) =
            res_json 500
              [(''success'', Some (JBool False)), (''message'', Some (JStr m)), (''error'', Some e)]))
   \<and> ((\<exists>u. fst (handle (mock_world mock_epic) mock_credential export_example) =
            res_json 200
              [(''success'', Some (JBool True)),
               (''message'', Some (JStr ''Bulk data export initiated'')),
               (''statusUrl'', map_option JStr u)])
     \<or> (\<exists>e. fst (handle (mock_world mock_epic) mock_credential export_example) =
            res_json 500
              [(''success'', Some (JBool False)),
               (''message'', Some (JStr ''Error initiating bulk export'')),
               (''error'', Some e)]))
   \<and> ((\<exists>d. fst (handle (mock_world mock_epic) mock_credential (mock_inbound GetBulkStatus)) =
            res_json 200
              [(''success'', Some (JBool True)),
               (''message'', Some (JStr ''Export status retrieved'')),
               (''data'', Some d)])
     \<or> fst (handle (mock_world mock_epic) mock_credential (mock_inbound GetBulkStatus)) =
            res_json 400
              [(''success'', Some (JBool False)),
               (''message'', Some (JStr ''Missing statusUrl parameter''))]
     \<or> (\<exists>e. fst (handle (mock_world mock_epic) mock_credential (mock_inbound GetBulkStatus)) =
            res_json 500
              [(''success'', Some (JBool False)),
               (''message'', Some (JStr ''Error checking export status'')),
               (''error'', Some e)]))
   \<and> ((\<exists>d. fst (handle (mock_world mock_epic) mock_credential download_example) =
            \<lparr>status = 200,
             out_headers = [(''Content-Disposition'',
                ''attachment; filename='' @ [CHR 0x22] @ ''bulk_data.ndjson'' @ [CHR 0x22])],
             content = Piped d\<rparr>)
     \<or> fst (handle (mock_world mock_epic) mock_credential download_example) =
            res_json 400
              [(''success'', Some (JBool False)),
               (''message'', Some (JStr ''Missing fileUrl parameter''))]
     \<or> (\<exists>e. fst (handle (mock_world mock_epic) mock_credential download_example) =
            res_json 500
              [(''success'', Some (JBool False)),
               (''message'', Some (JStr ''Error downloading bulk data'')),
               (''error'', Some e)]))
   \<and> ((\<exists>id. id \<noteq> [] \<and> fst (handle (mock_world mock_epic) mock_credential upload_example) =
            res_json 200 [(''success'', Some (JBool True)), (''documentId'', Some (JStr id))])
     \<or> fst (handle (mock_world mock_epic) mock_credential upload_example) =
            res_json 400 [(''error'', Some (JStr ''documentUrl and patientId are required''))]
     \<or> fst (handle (mock_world mock_epic) mock_credential upload_example) =
            res_json 500
              [(''success'', Some (JBool False)),
               (''message'', Some (JStr ''Epic did not return a Document ID''))]
     \<or> (\<exists>e. fst (handle (mock_world mock_epic) mock_credential upload_example) =
            res_json 500
              [(''success'', Some (JBool False)),
               (''message'', Some (JStr ''Error uploading document URL'')),
               (''error'', Some e)])
     \<or> (\<exists>m. fst (handle (mock_world mock_epic) mock_credential upload_example) =
            res_json 500
              [(''success'', Some (JBool False)),
               (''message'', Some (JStr ''Authentication failed'')),
               (''error'', Some (JStr m))]))
   \<and> ((\<exists>u. fst (handle (mock_world mock_epic) mock_credential (mock_inbound GetDocument)) =
            res_json 200 [(''success'', Some (JBool True)), (''documentUrl'', Some (JStr u))])
     \<or> fst (handle (mock_world mock_epic) mock_credential (mock_inbound GetDocument)) =
            res_json 404
              [(''success'', Some (JBool False)),
               (''message'', Some (JStr ''No Binary reference found in DocumentReference''))]
     \<or> (\<exists>d. fst (handle (mock_world mock_epic) mock_credential (mock_inbound GetDocument)) =
            res_json 500
              [(''success'', Some (JBool False)),
               (''message'', Some (JStr ''Binary resource does not contain data'')),
               (''epicResponse'', Some d)])
     \<or> (\<exists>e. fst (handle (mock_world mock_epic) mock_credential (mock_inbound GetDocument)) =
            res_json 500
              [(''success'', Some (JBool False)),
               (''message'', Some (JStr ''Error retrieving document'')),
               (''error'', Some e)])
     \<or> (\<exists>m. fst (handle (mock_world mock_epic) mock_credential (mock_inbound GetDocument)) =
            res_json 500
              [(''success'', Some (JBool False)),
               (''message'', Some (JStr ''Authentication failed'')),
               (''error'', Some (JStr m))]))"
proof -
  have a: "route (mock_inbound GetPatient) \<in> set server_js_routes"
    by (simp add: mock_inbound_def server_js_routes_def)
  have b: "route export_example = GetBulkExport"
    by (simp add: export_example_def mock_inbound_def)
  have s: "route (mock_inbound GetBulkStatus) = GetBulkStatus"
    by (simp add: mock_inbound_def)
  have d: "route download_example = GetBulkDownload"
    by (simp add: download_example_def mock_inbound_def)
  have u: "route upload_example = PostUploadUrl"
    by (simp add: upload_example_def mock_inbound_def)
  have g: "route (mock_inbound GetDocument) = GetDocument"
    by (simp add: mock_inbound_def)
  note inst = response_bodies [where w = "mock_world mock_epic" and c = mock_credential]
  from inst [of "mock_inbound GetPatient", THEN conjunct1, rule_format, OF a]
    inst [of export_example, THEN conjunct2, THEN conjunct1, rule_format, OF b]
    inst [of "mock_inbound GetBulkStatus", THEN conjunct2, THEN conjunct2, THEN conjunct1,
      rule_format, OF s]
    inst [of download_example, THEN conjunct2, THEN conjunct2, THEN conjunct2, THEN conjunct1,
      rule_format, OF d]
    inst [of upload_example, THEN conjunct2, THEN conjunct2, THEN conjunct2, THEN conjunct2,
      THEN conjunct1, rule_format, OF u]
    inst [of "mock_inbound GetDocument", THEN conjunct2, THEN conjunct2, THEN conjunct2,
      THEN conjunct2, THEN conjunct2, rule_format, OF g]
  show ?thesis by (intro conjI)
qed

text \<open>
  As the claim states it, every route answers in one envelope: a success with a boolean
  \<open>success\<close> and a string \<open>message\<close>, a failure with status 500 (400 for a validation
  error) and \<open>{success: false, message, error}\<close>. Seven answers that are not in it:
  the upload of the example is answered 200 with \<open>{success: true, documentId: "123"}\<close>,
  without a message; an upload without \<open>patientId\<close> is answered 400 with \<open>{error}\<close>
  alone; an upload that the upstream answers without a \<open>Location\<close> is answered 500
  with \<open>{success: false, message}\<close>, without an error; the document read back is
  answered 200 with \<open>{success: true, documentUrl}\<close>, without a message; a
  DocumentReference without content is answered 404; \<open>GET /bulk-status\<close> without
  \<open>statusUrl\<close> is answered 400 with \<open>{success: false, message}\<close>, without an error; and
  a download is answered 200 with the piped file, which is no such object.
\<close>

theorem envelope_counterexample:
  "fst (handle (mock_world mock_epic) mock_credential upload_example) =
     res_json 200 [(''success'', Some (JBool True)), (''documentId'', Some (JStr ''123''))]
   \<and> \<not> claimed_envelope (fst (handle (mock_world mock_epic) mock_credential upload_example))
   \<and> fst (handle (mock_world mock_epic) mock_credential upload_partial_example) =
     res_json 400 [(''error'', Some (JStr ''documentUrl and patientId are required''))]
   \<and> \<not> claimed_envelope (fst (handle (mock_world mock_epic) mock_credential upload_partial_example))
   \<and> fst (handle (mock_world mock_bare) mock_credential upload_example) =
     res_json 500
       [(''success'', Some (JBool False)),
        (''message'', Some (JStr ''Epic did not return a Document ID''))]
   \<and> \<not> claimed_envelope (fst (handle (mock_world mock_bare) mock_credential upload_example))
   \<and> fst (handle (mock_world mock_epic) mock_credential (mock_inbound GetDocument)) =
     res_json 200 [(''success'', Some (JBool True)), (''documentUrl'', Some (JStr ''https://x/doc''))]
   \<and> \<not> claimed_envelope (fst (handle (mock_world mock_epic) mock_credential (mock_inbound GetDocument)))
   \<and> fst (handle (mock_world mock_bare) mock_credential (mock_inbound GetDocument)) =
     res_json 404
       [(''success'', Some (JBool False)),
        (''message'', Some (JStr ''No Binary reference found in DocumentReference''))]
   \<and> \<not> claimed_envelope (fst (handle (mock_world mock_bare) mock_credential (mock_inbound GetDocument)))
   \<and> fst (handle (mock_world mock_epic) mock_credential (mock_inbound GetBulkStatus)) =
     res_json 400
       [(''success'', Some (JBool False)), (''message'', Some (JStr ''Missing statusUrl parameter''))]
   \<and> \<not> claimed_envelope (fst (handle (mock_world mock_epic) mock_credential (mock_inbound GetBulkStatus)))
   \<and> fst (handle (mock_world mock_epic) mock_credential download_example) =
     \<lparr>status = 200,
      out_headers = [(''Content-Disposition'',
         ''attachment; filename='' @ [CHR 0x22] @ ''bulk_data.ndjson'' @ [CHR 0x22])],
      content = Piped (JObj [])\<rparr>
   \<and> \<not> claimed_envelope (fst (handle (mock_world mock_epic) mock_credential download_example))"
proof -
  have shapes:
    "\<not> claimed_envelope (res_json 200 [(''success'', Some (JBool True)), (''documentId'', Some (JStr ''123''))])"
    "\<not> claimed_envelope (res_json 400 [(''error'', Some (JStr ''documentUrl and patientId are required''))])"
    "\<not> claimed_envelope (res_json 500
       [(''success'', Some (JBool False)),
        (''message'', Some (JStr ''Epic did not return a Document ID''))])"
    "\<not> claimed_envelope (res_json 200
       [(''success'', Some (JBool True)), (''documentUrl'', Some (JStr ''https://x/doc''))])"
    "\<not> claimed_envelope (res_json 404
       [(''success'', Some (JBool False)),
        (''message'', Some (JStr ''No Binary reference found in DocumentReference''))])"
    "\<not> claimed_envelope (res_json 400
       [(''success'', Some (JBool False)), (''message'', Some (JStr ''Missing statusUrl parameter''))])"
    "\<not> claimed_envelope
       \<lparr>status = 200,
        out_headers = [(''Content-Disposition'',
           ''attachment; filename='' @ [CHR 0x22] @ ''bulk_data.ndjson'' @ [CHR 0x22])],
        content = Piped (JObj [])\<rparr>"
    by (simp_all add: res_json_def map_filter_simps claimed_envelope_def claimed_success_shape_def
        claimed_failure_shape_def body_field_def)
  show ?thesis
    by (simp only: mock_upload_response mock_partial_upload_response mock_bare_upload_response
        mock_document_response mock_bare_document_response mock_status_response
        mock_download_response shapes simp_thms)
qed

end
